theory Spec2Isabelle
  imports Main "HOL-Library.Sublist"
begin

section \<open>Go strings, runes and UTF-8\<close>

text \<open>
  A Go \<^verbatim>\<open>string\<close> is a sequence of bytes, which is what \<^typ>\<open>string\<close> (a list of
  8-bit \<^typ>\<open>char\<close>s) is.  A rune is a code point, a \<^typ>\<open>nat\<close> here: every rune the
  functions below produce is below \<open>0x110000\<close>, so the 32 bits of Go's \<^verbatim>\<open>rune\<close> never
  overflow.  The masks and shifts of package \<^verbatim>\<open>unicode/utf8\<close> are written with
  \<open>mod\<close>, \<open>div\<close> and \<open>*\<close>: \<^verbatim>\<open>s0 & 0x1F\<close> is \<open>s0 mod 32\<close>, \<^verbatim>\<open>x << 6\<close> is \<open>x * 64\<close>, and
  \<^verbatim>\<open>|\<close> of values with disjoint bits is \<open>+\<close>.
\<close>

definition RuneError :: nat where
  "RuneError = 0xFFFD"

text \<open>The \<^verbatim>\<open>first\<close> table of \<^verbatim>\<open>unicode/utf8\<close>: the length a lead byte announces.\<close>

definition lead_size :: "nat \<Rightarrow> nat" where
  "lead_size s0 = (if s0 < 0xE0 then 2 else if s0 < 0xF0 then 3 else 4)"

text \<open>The \<^verbatim>\<open>acceptRanges\<close> table: the bounds of the second byte for a lead byte.\<close>

definition accept_lo :: "nat \<Rightarrow> nat" where
  "accept_lo s0 = (if s0 = 0xE0 then 0xA0 else if s0 = 0xF0 then 0x90 else 0x80)"

definition accept_hi :: "nat \<Rightarrow> nat" where
  "accept_hi s0 = (if s0 = 0xED then 0x9F else if s0 = 0xF4 then 0x8F else 0xBF)"

text \<open>
  \<^verbatim>\<open>utf8.DecodeRuneInString\<close>: the first rune of the string and its width in bytes.
  An invalid or short encoding is the rune \<^const>\<open>RuneError\<close> of width 1.
\<close>

fun DecodeRuneInString :: "string \<Rightarrow> nat \<times> nat" where
  "DecodeRuneInString [] = (RuneError, 0)"
| "DecodeRuneInString (c # cs) =
     (let s0 = of_char c in
      if s0 < 0x80 then (s0, 1)
      else if s0 < 0xC2 \<or> 0xF4 < s0 then (RuneError, 1)
      else
        let sz = lead_size s0 in
        if length (c # cs) < sz then (RuneError, 1)
        else
          let s1 = of_char (cs ! 0) in
          if s1 < accept_lo s0 \<or> accept_hi s0 < s1 then (RuneError, 1)
          else if sz \<le> 2 then ((s0 mod 32) * 64 + s1 mod 64, 2)
          else
            let s2 = of_char (cs ! 1) in
            if s2 < 0x80 \<or> 0xBF < s2 then (RuneError, 1)
            else if sz \<le> 3 then ((s0 mod 16) * 4096 + (s1 mod 64) * 64 + s2 mod 64, 3)
            else
              let s3 = of_char (cs ! 2) in
              if s3 < 0x80 \<or> 0xBF < s3 then (RuneError, 1)
              else ((s0 mod 8) * 262144 + (s1 mod 64) * 4096 + (s2 mod 64) * 64
                    + s3 mod 64, 4))"

text \<open>The conversion \<^verbatim>\<open>[]rune(s)\<close>: decode rune after rune until the string ends.\<close>

function string_to_runes :: "string \<Rightarrow> nat list" where
  "string_to_runes s =
     (if s = [] then []
      else fst (DecodeRuneInString s) # string_to_runes (drop (snd (DecodeRuneInString s)) s))"
  by pat_completeness auto
termination
proof (relation "measure length")
  show "wf (measure length)" by simp
next
  fix s :: string
  assume "s \<noteq> []"
  then have "0 < snd (DecodeRuneInString s)"
    by (cases s) (auto simp: Let_def)
  with \<open>s \<noteq> []\<close> show "(drop (snd (DecodeRuneInString s)) s, s) \<in> measure length"
    by simp
qed

declare string_to_runes.simps [simp del]

text \<open>
  \<^verbatim>\<open>utf8.RuneCountInString\<close>: the number of runes, an invalid byte counting as one
  rune of width 1.
\<close>

function RuneCountInString :: "string \<Rightarrow> int" where
  "RuneCountInString s =
     (if s = [] then 0
      else 1 + RuneCountInString (drop (snd (DecodeRuneInString s)) s))"
  by pat_completeness auto
termination
proof (relation "measure length")
  show "wf (measure length)" by simp
next
  fix s :: string
  assume "s \<noteq> []"
  then have "0 < snd (DecodeRuneInString s)"
    by (cases s) (auto simp: Let_def)
  with \<open>s \<noteq> []\<close> show "(drop (snd (DecodeRuneInString s)) s, s) \<in> measure length"
    by simp
qed

declare RuneCountInString.simps [simp del]

text \<open>
  \<^verbatim>\<open>utf8.ValidString\<close>: the string consists of valid encodings only, so that no step of
  the decoding is an error of width 1.
\<close>

function ValidString :: "string \<Rightarrow> bool" where
  "ValidString s =
     (if s = [] then True
      else DecodeRuneInString s \<noteq> (RuneError, 1)
           \<and> ValidString (drop (snd (DecodeRuneInString s)) s))"
  by pat_completeness auto
termination
proof (relation "measure length")
  show "wf (measure length)" by simp
next
  fix s :: string
  assume "s \<noteq> []"
  then have "0 < snd (DecodeRuneInString s)"
    by (cases s) (auto simp: Let_def)
  with \<open>s \<noteq> []\<close> show "(drop (snd (DecodeRuneInString s)) s, s) \<in> measure length"
    by simp
qed

declare ValidString.simps [simp del]

text \<open>
  The encoder behind the conversion \<^verbatim>\<open>string(rs)\<close> of a rune slice: a surrogate or a
  value above \<open>0x10FFFF\<close> is written as \<^const>\<open>RuneError\<close>.
\<close>

definition EncodeRune :: "nat \<Rightarrow> string" where
  "EncodeRune r =
     (if r \<le> 0x7F then [char_of r]
      else if r \<le> 0x7FF then [char_of (0xC0 + r div 64), char_of (0x80 + r mod 64)]
      else if 0x10FFFF < r \<or> (0xD800 \<le> r \<and> r \<le> 0xDFFF)
        then [char_of (0xEF :: nat), char_of (0xBF :: nat), char_of (0xBD :: nat)]
      else if r \<le> 0xFFFF
        then [char_of (0xE0 + r div 4096), char_of (0x80 + (r div 64) mod 64),
              char_of (0x80 + r mod 64)]
      else [char_of (0xF0 + r div 262144), char_of (0x80 + (r div 4096) mod 64),
            char_of (0x80 + (r div 64) mod 64), char_of (0x80 + r mod 64)])"

definition runes_to_string :: "nat list \<Rightarrow> string" where
  "runes_to_string rs = concat (map EncodeRune rs)"

text \<open>A rune that \<^const>\<open>EncodeRune\<close> writes as itself: a Unicode scalar value.\<close>

definition ValidRune :: "nat \<Rightarrow> bool" where
  "ValidRune r = (r < 0xD800 \<or> (0xDFFF < r \<and> r \<le> 0x10FFFF))"

text \<open>What \<^const>\<open>EncodeRune\<close> followed by decoding makes of a rune.\<close>

definition norm_rune :: "nat \<Rightarrow> nat" where
  "norm_rune r = (if ValidRune r then r else RuneError)"

section \<open>Faults\<close>

text \<open>
  A Go panic is a value of its own, apart from every \<^verbatim>\<open>error\<close> a function returns:
  a function that can panic returns \<open>'e panic + 'a\<close>.
\<close>

datatype 'e panic = PanicWith 'e | IndexOutOfRange | SliceBoundsOutOfRange

section \<open>Truncation of the message\<close>

text \<open>
  \<^verbatim>\<open>trunc\<close>.  The slice \<^verbatim>\<open>[]rune(message)[0:n-3]\<close> panics when \<open>n - 3\<close> is negative; it
  is never above the length of the slice, which exceeds \<open>n\<close> in that branch.  The
  parameter \<open>n\<close> is Go's \<^verbatim>\<open>int\<close>; the counts are lengths of strings and far from its
  bounds.
\<close>

definition trunc :: "string \<Rightarrow> int \<Rightarrow> 'e panic + string" where
  "trunc message n =
     (if RuneCountInString message > n then
        (if n - 3 < 0 then Inl SliceBoundsOutOfRange
         else Inr (runes_to_string (take (nat (n - 3)) (string_to_runes message)) @ ''...''))
      else Inr message)"

section \<open>Splitting strings\<close>

text \<open>\<^verbatim>\<open>strings.Split\<close> for a separator of one byte.\<close>

fun Split :: "string \<Rightarrow> char \<Rightarrow> string list" where
  "Split [] sep = [[]]"
| "Split (c # cs) sep =
     (if c = sep then [] # Split cs sep
      else case Split cs sep of [] \<Rightarrow> [[c]] | x # xs \<Rightarrow> (c # x) # xs)"

section \<open>The notification and its GitHub payload\<close>

text \<open>\<^verbatim>\<open>GitHubNotification\<close>: the five template strings of a configuration, and the five
  rendered strings of a payload.\<close>

record GitHubNotification =
  State :: string
  Label :: string
  TargetURL :: string
  RepoURL :: string
  Revision :: string

text \<open>
  Modelled from the spec: the type \<^verbatim>\<open>Notification\<close> is declared in another file of the
  package.  The outer notification owns a plain-text message and an optional payload
  (the pointer \<^verbatim>\<open>notification.GitHub\<close>, \<^const>\<open>None\<close> when \<^verbatim>\<open>nil\<close>); whatever else it
  carries is the extension of the record.
\<close>

record Notification =
  Message :: string
  GitHub :: "GitHubNotification option"

definition defaultRepoURLtemplate :: string where
  "defaultRepoURLtemplate = ''{{.app.spec.source.repoURL}}''"

definition defaultRevisionTemplate :: string where
  "defaultRevisionTemplate = ''{{.app.status.operationState.syncResult.revision}}''"

text \<open>The payload \<^verbatim>\<open>&GitHubNotification{}\<close> that the executor allocates.\<close>

definition emptyGitHubNotification :: GitHubNotification where
  "emptyGitHubNotification =
     \<lparr>State = [], Label = [], TargetURL = [], RepoURL = [], Revision = []\<rparr>"

section \<open>Compiling and executing the templates\<close>

text \<open>
  The template engine is \<^verbatim>\<open>text/template\<close>, a library: it is a parameter of the model.
  \<open>Parse name f text\<close> stands for \<^verbatim>\<open>texttemplate.New(name).Funcs(f).Parse(text)\<close> and
  returns the compiled template or the error.  \<open>Execute t vars w\<close> stands for
  \<^verbatim>\<open>t.Execute(&buf, vars)\<close> on a fresh buffer: it returns the error, or the contents of
  the buffer, and the state \<open>w\<close> of whatever the functions of the template touch.

  The function map is taken to be well formed, so that \<^verbatim>\<open>Funcs\<close> does not panic.

  The closure that \<^verbatim>\<open>GetTemplater\<close> returns captures the five compiled templates.  The
  notification is passed by pointer and updated in place: the model returns it next to
  the error.  The payload is a value that the notification carries; the identity of the
  pointer is not part of the model.
\<close>

definition templater ::
  "('t \<Rightarrow> 'v \<Rightarrow> 'w \<Rightarrow> ('e + string) \<times> 'w) \<Rightarrow> 't \<Rightarrow> 't \<Rightarrow> 't \<Rightarrow> 't \<Rightarrow> 't
     \<Rightarrow> 'a Notification_scheme \<Rightarrow> 'v \<Rightarrow> 'w \<Rightarrow> ('e option \<times> 'a Notification_scheme) \<times> 'w"
where
  "templater Execute repoURL revision state label targetURL notification vars w =
     (let p0 = (case GitHub notification of None \<Rightarrow> emptyGitHubNotification | Some p \<Rightarrow> p)
      in case Execute repoURL vars w of
        (Inl err, w1) \<Rightarrow> ((Some err, notification\<lparr>GitHub := Some p0\<rparr>), w1)
      | (Inr repoData, w1) \<Rightarrow>
     (let p1 = p0\<lparr>RepoURL := repoData\<rparr>
      in case Execute revision vars w1 of
        (Inl err, w2) \<Rightarrow> ((Some err, notification\<lparr>GitHub := Some p1\<rparr>), w2)
      | (Inr revisionData, w2) \<Rightarrow>
     (let p2 = p1\<lparr>Revision := revisionData\<rparr>
      in case Execute state vars w2 of
        (Inl err, w3) \<Rightarrow> ((Some err, notification\<lparr>GitHub := Some p2\<rparr>), w3)
      | (Inr stateData, w3) \<Rightarrow>
     (let p3 = p2\<lparr>State := stateData\<rparr>
      in case Execute label vars w3 of
        (Inl err, w4) \<Rightarrow> ((Some err, notification\<lparr>GitHub := Some p3\<rparr>), w4)
      | (Inr labelData, w4) \<Rightarrow>
     (let p4 = p3\<lparr>Label := labelData\<rparr>
      in case Execute targetURL vars w4 of
        (Inl err, w5) \<Rightarrow> ((Some err, notification\<lparr>GitHub := Some p4\<rparr>), w5)
      | (Inr targetData, w5) \<Rightarrow>
          ((None, notification\<lparr>GitHub := Some (p4\<lparr>TargetURL := targetData\<rparr>)\<rparr>), w5))))))"

text \<open>\<^verbatim>\<open>GetTemplater\<close>, for a receiver \<open>g\<close> that is not \<^verbatim>\<open>nil\<close>.\<close>

definition GetTemplater ::
  "(string \<Rightarrow> 'f \<Rightarrow> string \<Rightarrow> 'e + 't) \<Rightarrow> ('t \<Rightarrow> 'v \<Rightarrow> 'w \<Rightarrow> ('e + string) \<times> 'w)
     \<Rightarrow> GitHubNotification \<Rightarrow> string \<Rightarrow> 'f
     \<Rightarrow> 'e + ('a Notification_scheme \<Rightarrow> 'v \<Rightarrow> 'w \<Rightarrow> ('e option \<times> 'a Notification_scheme) \<times> 'w)"
where
  "GetTemplater Parse Execute g name f =
     (let repoURLtemplate = (if RepoURL g \<noteq> [] then RepoURL g else defaultRepoURLtemplate)
      in case Parse name f repoURLtemplate of Inl err \<Rightarrow> Inl err | Inr repoURL \<Rightarrow>
     (let revisionTemplate = (if Revision g \<noteq> [] then Revision g else defaultRevisionTemplate)
      in case Parse name f revisionTemplate of Inl err \<Rightarrow> Inl err | Inr revision \<Rightarrow>
     (case Parse name f (State g) of Inl err \<Rightarrow> Inl err | Inr state \<Rightarrow>
     (case Parse name f (Label g) of Inl err \<Rightarrow> Inl err | Inr label \<Rightarrow>
     (case Parse name f (TargetURL g) of Inl err \<Rightarrow> Inl err | Inr targetURL \<Rightarrow>
        Inr (templater Execute repoURL revision state label targetURL))))))"

text \<open>The payload the executor works on: the one the notification carries, or a new one.\<close>

definition payload :: "'a Notification_scheme \<Rightarrow> GitHubNotification" where
  "payload notification =
     (case GitHub notification of None \<Rightarrow> emptyGitHubNotification | Some p \<Rightarrow> p)"

text \<open>The template texts that \<^verbatim>\<open>GetTemplater\<close> compiles for the first two fields.\<close>

definition repoURLtemplate :: "GitHubNotification \<Rightarrow> string" where
  "repoURLtemplate g = (if RepoURL g \<noteq> [] then RepoURL g else defaultRepoURLtemplate)"

definition revisionTemplate :: "GitHubNotification \<Rightarrow> string" where
  "revisionTemplate g = (if Revision g \<noteq> [] then Revision g else defaultRevisionTemplate)"

section \<open>A small template engine\<close>

text \<open>
  The theorems about \<^const>\<open>GetTemplater\<close> hold for every engine.  To run them on
  concrete templates there is a small engine here, in the manner of
  \<^verbatim>\<open>text/template\<close>: a template is literal text with actions \<^verbatim>\<open>{{.a.b.c}}\<close> (blanks
  around the chain are allowed), the
  variables are nested maps with strings at the leaves, a missing key prints as
  \<^verbatim>\<open><no value>\<close>, a chain that ends at a map prints as \<^verbatim>\<open>map\<close>, and a field of a string
  is an execution error.  A parse error carries the name of the template and a message.
  The state that execution threads is the log of the templates executed so far.
\<close>

datatype node = Text string | FieldChain "string list"

datatype val = VString string | VMap "(string \<times> val) list"

datatype tmpl_error = ParseError string string | ExecError string

definition mk_text :: "string \<Rightarrow> node list" where
  "mk_text s = (if s = [] then [] else [Text s])"

definition trim_blanks :: "string \<Rightarrow> string" where
  "trim_blanks s =
     rev (dropWhile (\<lambda>c. c = CHR '' '') (rev (dropWhile (\<lambda>c. c = CHR '' '') s)))"

definition mk_field :: "string \<Rightarrow> node option" where
  "mk_field s =
     (let t = trim_blanks s
      in case Split t CHR ''.'' of
           [] \<Rightarrow> None
         | x # xs \<Rightarrow>
             if x = [] \<and> xs \<noteq> [] \<and> [] \<notin> set xs \<and> CHR '' '' \<notin> set t
             then Some (FieldChain xs) else None)"

fun scan :: "bool \<Rightarrow> string \<Rightarrow> string \<Rightarrow> string + node list" where
  "scan False acc [] = Inr (mk_text (rev acc))"
| "scan True acc [] = Inl ''unclosed action''"
| "scan False acc [c] = Inr (mk_text (rev (c # acc)))"
| "scan True acc [c] = Inl ''unclosed action''"
| "scan False acc (c # d # cs) =
     (if c = CHR ''{'' \<and> d = CHR ''{''
      then (case scan True [] cs of Inl e \<Rightarrow> Inl e | Inr ns \<Rightarrow> Inr (mk_text (rev acc) @ ns))
      else scan False (c # acc) (d # cs))"
| "scan True acc (c # d # cs) =
     (if c = CHR ''}'' \<and> d = CHR ''}''
      then (case mk_field (rev acc) of
              None \<Rightarrow> Inl ''bad action''
            | Some n \<Rightarrow> (case scan False [] cs of Inl e \<Rightarrow> Inl e | Inr ns \<Rightarrow> Inr (n # ns)))
      else scan True (c # acc) (d # cs))"

definition mini_Parse :: "string \<Rightarrow> unit \<Rightarrow> string \<Rightarrow> tmpl_error + node list" where
  "mini_Parse name f text =
     (case scan False [] text of Inl msg \<Rightarrow> Inl (ParseError name msg) | Inr ns \<Rightarrow> Inr ns)"

fun eval_field :: "val \<Rightarrow> string list \<Rightarrow> tmpl_error + string" where
  "eval_field (VString s) [] = Inr s"
| "eval_field (VMap m) [] = Inr ''map''"
| "eval_field (VString s) (k # ks) = Inl (ExecError k)"
| "eval_field (VMap m) (k # ks) =
     (case map_of m k of None \<Rightarrow> Inr ''<no value>'' | Some v \<Rightarrow> eval_field v ks)"

fun eval_nodes :: "node list \<Rightarrow> val \<Rightarrow> tmpl_error + string" where
  "eval_nodes [] vars = Inr []"
| "eval_nodes (Text s # ns) vars =
     (case eval_nodes ns vars of Inl e \<Rightarrow> Inl e | Inr r \<Rightarrow> Inr (s @ r))"
| "eval_nodes (FieldChain ks # ns) vars =
     (case eval_field vars ks of
        Inl e \<Rightarrow> Inl e
      | Inr s \<Rightarrow> (case eval_nodes ns vars of Inl e \<Rightarrow> Inl e | Inr r \<Rightarrow> Inr (s @ r)))"

definition mini_Execute ::
  "node list \<Rightarrow> val \<Rightarrow> node list list \<Rightarrow> (tmpl_error + string) \<times> node list list" where
  "mini_Execute t vars w = (eval_nodes t vars, w @ [t])"

section \<open>Resolving the repository\<close>

text \<open>
  The fields of \<^verbatim>\<open>net/url.URL\<close> that the parsers below fill; \<^verbatim>\<open>fullNameByRepoURL\<close>
  reads the path only.
\<close>

record URL =
  Scheme :: string
  Host :: string
  Path :: string

text \<open>
  The regular expression \<^verbatim>\<open>gitSuffix\<close> is \<^verbatim>\<open>\.git$\<close>: it matches the four bytes \<^verbatim>\<open>.git\<close>
  at the end of the text and nowhere else, so \<^verbatim>\<open>gitSuffix.ReplaceAllString(s, repl)\<close>
  replaces that one occurrence.
\<close>

definition gitSuffix_ReplaceAllString :: "string \<Rightarrow> string \<Rightarrow> string" where
  "gitSuffix_ReplaceAllString s repl =
     (if 4 \<le> length s \<and> drop (length s - 4) s = ''.git''
      then take (length s - 4) s @ repl else s)"

text \<open>
  Modelled from the spec: \<^verbatim>\<open>text.SplitRemoveEmpty\<close> is a function of another package of
  the repository.  It splits the string on the separator and discards the empty
  segments.  The separator is one byte, as in its only call here.
\<close>

definition SplitRemoveEmpty :: "string \<Rightarrow> char \<Rightarrow> string list" where
  "SplitRemoveEmpty s sep = filter (\<lambda>x. x \<noteq> []) (Split s sep)"

text \<open>\<^verbatim>\<open>strings.Join\<close>.\<close>

fun Join :: "string list \<Rightarrow> string \<Rightarrow> string" where
  "Join [] sep = []"
| "Join [x] sep = x"
| "Join (x # y # ys) sep = x @ sep @ Join (y # ys) sep"

text \<open>
  \<^verbatim>\<open>fullNameByRepoURL\<close>.  The parser \<^verbatim>\<open>giturls.Parse\<close> is a library function and a
  parameter here.  The function has no error result: when the parser fails it panics
  with the parser's error.
\<close>

definition fullNameByRepoURL ::
  "(string \<Rightarrow> 'e + 'u URL_scheme) \<Rightarrow> string \<Rightarrow> 'e panic + string" where
  "fullNameByRepoURL Parse rawURL =
     (case Parse rawURL of
        Inl err \<Rightarrow> Inl (PanicWith err)
      | Inr parsed \<Rightarrow>
          (let path = gitSuffix_ReplaceAllString (Path parsed) [];
               pathParts = SplitRemoveEmpty path CHR ''/''
           in if 2 \<le> length pathParts then Inr (Join (take 2 pathParts) ''/'')
              else Inr path))"

section \<open>Sending the status\<close>

text \<open>The arguments of one call of \<^verbatim>\<open>Repositories.CreateStatus\<close>.\<close>

record StatusCall =
  call_owner :: string
  call_repo :: string
  call_ref :: string
  status_State :: string
  status_Description :: string
  status_Context :: string
  status_TargetURL :: string

text \<open>An error value that \<^verbatim>\<open>Send\<close> returns: its own, or the one the API client returned.\<close>

datatype 'c error = Errorf string | ClientError 'c

text \<open>
  \<^verbatim>\<open>Send\<close>.  The API client is a parameter: \<open>CreateStatus call c\<close> makes the call in the
  state \<open>c\<close> of the client and the service behind it, and returns the error, if any, and
  the new state.  A panic leaves the state as it was: no call was made.  The indexing
  \<^verbatim>\<open>u[0]\<close>, \<^verbatim>\<open>u[1]\<close> of the argument list panics when the slice is too short.  The
  service is one that \<^verbatim>\<open>NewGitHubService\<close> built, with a client; the destination is not
  used.
\<close>

definition Send ::
  "(string \<Rightarrow> 'e + 'u URL_scheme) \<Rightarrow> (StatusCall \<Rightarrow> 'c \<Rightarrow> 'x option \<times> 'c)
     \<Rightarrow> 'a Notification_scheme \<Rightarrow> 'c \<Rightarrow> ('e panic + 'x error option) \<times> 'c" where
  "Send Parse CreateStatus notification c =
     (case GitHub notification of
        None \<Rightarrow> (Inr (Some (Errorf ''config is empty'')), c)
      | Some gh \<Rightarrow>
          (case fullNameByRepoURL Parse (RepoURL gh) of
             Inl p \<Rightarrow> (Inl p, c)
           | Inr fullName \<Rightarrow>
               (let u = Split fullName CHR ''/'' in
                case trunc (Message notification) 140 of
                  Inl p \<Rightarrow> (Inl p, c)
                | Inr description \<Rightarrow>
                    if length u \<le> 0 then (Inl IndexOutOfRange, c)
                    else if length u \<le> 1 then (Inl IndexOutOfRange, c)
                    else
                      (case CreateStatus
                              \<lparr>call_owner = u ! 0, call_repo = u ! 1,
                               call_ref = Revision gh, status_State = State gh,
                               status_Description = description,
                               status_Context = Label gh,
                               status_TargetURL = TargetURL gh\<rparr> c of
                         (Some err, c') \<Rightarrow> (Inr (Some (ClientError err)), c')
                       | (None, c') \<Rightarrow> (Inr None, c')))))"

section \<open>A reference parser and a recording client\<close>

text \<open>
  To run the resolver on concrete addresses there is a parser here in the manner of
  \<^verbatim>\<open>giturls.Parse\<close>.  That function tries its parsers in turn and returns the result of
  the first that succeeds: a URL with a Git transport as its scheme, then the form
  \<^verbatim>\<open>user@host:path\<close> of \<^verbatim>\<open>scp\<close>, then the string taken for a local path, which always
  succeeds.  The first two parsers are written for addresses without query, fragment,
  user information in the authority, or percent escapes.
\<close>

text \<open>The loop of \<^verbatim>\<open>giturls.Parse\<close> over its parsers.\<close>

fun Parse_first :: "(string \<Rightarrow> string + URL) list \<Rightarrow> string \<Rightarrow> string + URL" where
  "Parse_first [] rawurl = Inl ''failed to parse''"
| "Parse_first (p # ps) rawurl =
     (case p rawurl of Inr u \<Rightarrow> Inr u | Inl _ \<Rightarrow> Parse_first ps rawurl)"

text \<open>\<^verbatim>\<open>strings.ToLower\<close> on one byte of a scheme.\<close>

definition ToLower :: "char \<Rightarrow> char" where
  "ToLower c =
     (let n = (of_char c :: nat) in if 65 \<le> n \<and> n \<le> 90 then char_of (n + 32) else c)"

definition Transports :: "string list" where
  "Transports = [''ssh'', ''git'', ''git+ssh'', ''http'', ''https'', ''ftp'', ''ftps'',
                 ''rsync'', ''file'']"

definition ParseTransport :: "string \<Rightarrow> string + URL" where
  "ParseTransport rawurl =
     (let scheme = map ToLower (takeWhile (\<lambda>c. c \<noteq> CHR '':'') rawurl);
          rest = drop (length scheme + 1) rawurl
      in if CHR '':'' \<notin> set rawurl \<or> scheme \<notin> set Transports
         then Inl ''scheme is not a valid transport''
         else if take 2 rest = ''//''
         then Inr \<lparr>Scheme = scheme,
                   Host = takeWhile (\<lambda>c. c \<noteq> CHR ''/'') (drop 2 rest),
                   Path = dropWhile (\<lambda>c. c \<noteq> CHR ''/'') (drop 2 rest)\<rparr>
         else if take 1 rest = ''/''
         then Inr \<lparr>Scheme = scheme, Host = [], Path = rest\<rparr>
         else Inr \<lparr>Scheme = scheme, Host = [], Path = []\<rparr>)"

definition alnum :: "char \<Rightarrow> bool" where
  "alnum c =
     (let n = (of_char c :: nat)
      in (48 \<le> n \<and> n \<le> 57) \<or> (65 \<le> n \<and> n \<le> 90) \<or> (97 \<le> n \<and> n \<le> 122))"

definition ParseScp :: "string \<Rightarrow> string + URL" where
  "ParseScp rawurl =
     (let pre = takeWhile (\<lambda>c. c \<noteq> CHR '':'') rawurl;
          rest = drop (length pre + 1) rawurl;
          has_user = (CHR ''@'' \<in> set pre);
          user = (if has_user then takeWhile (\<lambda>c. c \<noteq> CHR ''@'') pre else []);
          host = (if has_user then drop (length user + 1) pre else pre);
          path = takeWhile (\<lambda>c. alnum c \<or> c \<in> set ''./_-'') rest
      in if CHR '':'' \<notin> set rawurl
            \<or> (has_user \<and> (user = [] \<or> \<not> list_all (\<lambda>c. alnum c \<or> c = CHR ''_'') user))
            \<or> host = [] \<or> \<not> list_all (\<lambda>c. alnum c \<or> c \<in> set ''._-'') host
            \<or> path = []
         then Inl ''no scp URL found''
         else Inr \<lparr>Scheme = ''ssh'', Host = host, Path = path\<rparr>)"

definition ParseLocal :: "string \<Rightarrow> string + URL" where
  "ParseLocal rawurl = Inr \<lparr>Scheme = ''file'', Host = [], Path = rawurl\<rparr>"

definition giturls_Parse :: "string \<Rightarrow> string + URL" where
  "giturls_Parse rawurl = Parse_first [ParseTransport, ParseScp, ParseLocal] rawurl"

text \<open>A client that records the calls it receives and reports no error.\<close>

definition recording_CreateStatus ::
  "StatusCall \<Rightarrow> StatusCall list \<Rightarrow> unit option \<times> StatusCall list" where
  "recording_CreateStatus call c = (None, c @ [call])"

section \<open>Example inputs\<close>

text \<open>A variable context in which \<^verbatim>\<open>app.spec.source.repoURL\<close> is \<^verbatim>\<open>https://x/y/z.git\<close>.\<close>

definition example_vars :: val where
  "example_vars =
     VMap [(''app'', VMap [(''spec'', VMap [(''source'',
       VMap [(''repoURL'', VString ''https://x/y/z.git'')])])])]"

text \<open>A configuration with every template string empty.\<close>

definition cfg_empty :: GitHubNotification where
  "cfg_empty = \<lparr>State = [], Label = [], TargetURL = [], RepoURL = [], Revision = []\<rparr>"

text \<open>A configuration whose state template compiles and fails when executed.\<close>

definition cfg_state_fails :: GitHubNotification where
  "cfg_state_fails =
     \<lparr>State = ''{{.app.spec.source.repoURL.bad}}'', Label = ''ci'', TargetURL = ''http://x'',
      RepoURL = [], Revision = []\<rparr>"

text \<open>Two configurations with the same syntax error, in the state and in the label.\<close>

definition cfg_bad_state :: GitHubNotification where
  "cfg_bad_state =
     \<lparr>State = ''{{'', Label = ''ci'', TargetURL = ''http://x'', RepoURL = [], Revision = []\<rparr>"

definition cfg_bad_label :: GitHubNotification where
  "cfg_bad_label =
     \<lparr>State = ''success'', Label = ''{{'', TargetURL = ''http://x'', RepoURL = [], Revision = []\<rparr>"

text \<open>A notification without a payload, and one with a payload left by an earlier run.\<close>

definition note_fresh :: Notification where
  "note_fresh = \<lparr>Message = ''deployed'', GitHub = None\<rparr>"

definition old_payload :: GitHubNotification where
  "old_payload =
     \<lparr>State = ''old state'', Label = ''old label'', TargetURL = ''old target'',
      RepoURL = ''old repo'', Revision = ''old revision''\<rparr>"

definition note_stale :: Notification where
  "note_stale = \<lparr>Message = ''deployed'', GitHub = Some old_payload\<rparr>"

text \<open>A notification whose payload names the given repository address.\<close>

definition note_for :: "string \<Rightarrow> Notification" where
  "note_for url =
     \<lparr>Message = ''deployed'',
      GitHub = Some \<lparr>State = ''success'', Label = ''ci'', TargetURL = ''http://x'',
                     RepoURL = url, Revision = ''abc123''\<rparr>\<rparr>"

section \<open>Decoding what was encoded\<close>

lemma of_char_char_of_less: "n < 256 \<Longrightarrow> of_char (char_of (n::nat)) = n"
  by simp

lemma mod_add_mult: "(q::nat) < n \<Longrightarrow> (n * k + q) mod n = q"
  by simp

lemma RuneCountInString_length: "RuneCountInString s = int (length (string_to_runes s))"
  by (induction s rule: string_to_runes.induct)
     (subst RuneCountInString.simps, subst string_to_runes.simps, simp)

lemma EncodeRune_1: "r \<le> 0x7F \<Longrightarrow> DecodeRuneInString (EncodeRune r @ t) = (r, 1)"
  by (simp add: EncodeRune_def)

lemma EncodeRune_2:
  assumes "0x7F < r" "r \<le> 0x7FF"
  shows "DecodeRuneInString (EncodeRune r @ t) = (r, 2)"
proof -
  define q m where "q = r div 64" and "m = r mod 64"
  have r: "r = q * 64 + m" and m: "m < 64" by (simp_all add: q_def m_def)
  have q: "2 \<le> q" "q < 32" using assms r m by linarith+
  have E: "EncodeRune r = [char_of (192 + q), char_of (128 + m)]"
    using assms by (simp add: EncodeRune_def q_def m_def)
  have b0: "of_char (char_of (192 + q)) = 192 + q"
    using q by (intro of_char_char_of_less) simp
  have b1: "of_char (char_of (128 + m)) = 128 + m"
    using m by (intro of_char_char_of_less) simp
  have a0: "(192 + q) mod 32 = q" using q mod_add_mult [of q 32 6] by simp
  have a1: "(128 + m) mod 64 = m" using m mod_add_mult [of m 64 2] by simp
  show ?thesis
    unfolding E using q m
    by (simp add: Let_def lead_size_def accept_lo_def accept_hi_def b0 b1 a0 a1 r del: of_char_of)
qed

lemma EncodeRune_3:
  assumes "0x7FF < r" "r \<le> 0xFFFF" "r < 0xD800 \<or> 0xDFFF < r"
  shows "DecodeRuneInString (EncodeRune r @ t) = (r, 3)"
proof -
  define a m q2 q1 where "a = r div 64" and "m = r mod 64" and "q2 = a div 64" and "q1 = a mod 64"
  have ra: "r = a * 64 + m" and m: "m < 64" by (simp_all add: a_def m_def)
  have aq: "a = q2 * 64 + q1" and q1: "q1 < 64" by (simp_all add: q2_def q1_def)
  have r: "r = q2 * 4096 + q1 * 64 + m" using ra aq by simp
  have d: "r div 4096 = q2" unfolding q2_def a_def by (simp add: div_mult2_eq)
  have q2: "q2 < 16" using assms r by linarith
  have lo: "q2 = 0 \<Longrightarrow> 32 \<le> q1" using assms r m by linarith
  have hi: "q1 < 32" if "q2 = 13"
  proof -
    have "r \<le> 0xDFFF" using that r m q1 by linarith
    with assms(3) have "r < 0xD800" by linarith
    then show ?thesis using that r by linarith
  qed
  have E: "EncodeRune r = [char_of (224 + q2), char_of (128 + q1), char_of (128 + m)]"
    using assms by (auto simp add: EncodeRune_def d q1_def a_def m_def)
  have b0: "of_char (char_of (224 + q2)) = 224 + q2"
    using q2 by (intro of_char_char_of_less) simp
  have b1: "of_char (char_of (128 + q1)) = 128 + q1"
    using q1 by (intro of_char_char_of_less) simp
  have b2: "of_char (char_of (128 + m)) = 128 + m"
    using m by (intro of_char_char_of_less) simp
  have a0: "(224 + q2) mod 16 = q2" using q2 mod_add_mult [of q2 16 14] by simp
  have a1: "(128 + q1) mod 64 = q1" using q1 mod_add_mult [of q1 64 2] by simp
  have a2: "(128 + m) mod 64 = m" using m mod_add_mult [of m 64 2] by simp
  show ?thesis
    unfolding E using q2 q1 m lo hi
    by (auto simp add: Let_def lead_size_def accept_lo_def accept_hi_def b0 b1 b2 a0 a1 a2 r
             simp del: of_char_of)
qed

lemma EncodeRune_4:
  assumes "0xFFFF < r" "r \<le> 0x10FFFF"
  shows "DecodeRuneInString (EncodeRune r @ t) = (r, 4)"
proof -
  define a m b q1 q3 q2 where "a = r div 64" and "m = r mod 64" and "b = a div 64"
    and "q1 = a mod 64" and "q3 = b div 64" and "q2 = b mod 64"
  have ra: "r = a * 64 + m" and m: "m < 64" by (simp_all add: a_def m_def)
  have ab: "a = b * 64 + q1" and q1: "q1 < 64" by (simp_all add: b_def q1_def)
  have bq: "b = q3 * 64 + q2" and q2: "q2 < 64" by (simp_all add: q3_def q2_def)
  have r: "r = q3 * 262144 + q2 * 4096 + q1 * 64 + m" using ra ab bq by simp
  have d2: "r div 4096 = b" unfolding b_def a_def by (simp add: div_mult2_eq)
  have d3: "r div 262144 = q3" unfolding q3_def b_def a_def by (simp add: div_mult2_eq)
  have q3: "q3 < 5" using assms r by linarith
  have lo: "q3 = 0 \<Longrightarrow> 16 \<le> q2" using assms r m q1 by linarith
  have hi: "q3 = 4 \<Longrightarrow> q2 < 16" using assms r m by linarith
  have E: "EncodeRune r
      = [char_of (240 + q3), char_of (128 + q2), char_of (128 + q1), char_of (128 + m)]"
    using assms by (auto simp add: EncodeRune_def d2 d3 q2_def q1_def a_def m_def)
  have b0: "of_char (char_of (240 + q3)) = 240 + q3"
    using q3 by (intro of_char_char_of_less) simp
  have b1: "of_char (char_of (128 + q2)) = 128 + q2"
    using q2 by (intro of_char_char_of_less) simp
  have b2: "of_char (char_of (128 + q1)) = 128 + q1"
    using q1 by (intro of_char_char_of_less) simp
  have b3: "of_char (char_of (128 + m)) = 128 + m"
    using m by (intro of_char_char_of_less) simp
  have a0: "(240 + q3) mod 8 = q3" using q3 mod_add_mult [of q3 8 30] by simp
  have a1: "(128 + q2) mod 64 = q2" using q2 mod_add_mult [of q2 64 2] by simp
  have a2: "(128 + q1) mod 64 = q1" using q1 mod_add_mult [of q1 64 2] by simp
  have a3: "(128 + m) mod 64 = m" using m mod_add_mult [of m 64 2] by simp
  show ?thesis
    unfolding E using q3 q2 q1 m lo hi
    by (auto simp add: Let_def lead_size_def accept_lo_def accept_hi_def b0 b1 b2 b3 a0 a1 a2 a3 r
             simp del: of_char_of)
qed

lemma EncodeRune_length:
  "length (EncodeRune r) = (if r \<le> 0x7F then 1 else if r \<le> 0x7FF then 2
     else if 0x10FFFF < r \<or> (0xD800 \<le> r \<and> r \<le> 0xDFFF) then 3
     else if r \<le> 0xFFFF then 3 else 4)"
  by (simp add: EncodeRune_def)

lemma Decode_Encode:
  assumes "ValidRune r"
  shows "DecodeRuneInString (EncodeRune r @ t) = (r, length (EncodeRune r))"
proof -
  consider "r \<le> 0x7F" | "0x7F < r" "r \<le> 0x7FF" | "0x7FF < r" "r \<le> 0xFFFF" | "0xFFFF < r"
    by linarith
  then show ?thesis
  proof cases
    case 1 then show ?thesis by (simp add: EncodeRune_1 EncodeRune_length)
  next
    case 2 then show ?thesis by (simp add: EncodeRune_2 EncodeRune_length)
  next
    case 3
    moreover from assms 3 have "r < 0xD800 \<or> 0xDFFF < r" by (simp add: ValidRune_def)
    ultimately show ?thesis using EncodeRune_3 [of r t] by (auto simp add: EncodeRune_length)
  next
    case 4
    moreover from assms 4 have "r \<le> 0x10FFFF" by (simp add: ValidRune_def)
    ultimately show ?thesis using EncodeRune_4 [of r t] by (simp add: EncodeRune_length)
  qed
qed

lemma ValidRune_RuneError: "ValidRune RuneError"
  by (simp add: ValidRune_def RuneError_def)

lemma EncodeRune_invalid: "\<not> ValidRune r \<Longrightarrow> EncodeRune r = EncodeRune RuneError"
  by (auto simp add: ValidRune_def EncodeRune_def RuneError_def)

lemma EncodeRune_not_Nil: "EncodeRune r \<noteq> []"
  by (simp add: EncodeRune_def)

lemma string_to_runes_Encode:
  "string_to_runes (EncodeRune r @ t) = norm_rune r # string_to_runes t"
proof (cases "ValidRune r")
  case True
  then show ?thesis
    by (subst string_to_runes.simps) (simp add: Decode_Encode EncodeRune_not_Nil norm_rune_def)
next
  case False
  then show ?thesis
    using Decode_Encode [OF ValidRune_RuneError, of t]
    by (subst string_to_runes.simps) (simp add: EncodeRune_invalid EncodeRune_not_Nil norm_rune_def)
qed

lemma string_to_runes_runes_to_string:
  "string_to_runes (runes_to_string rs @ t) = map norm_rune rs @ string_to_runes t"
  by (induction rs) (simp_all add: runes_to_string_def string_to_runes_Encode)

section \<open>Every decoded rune is a scalar value\<close>

lemma valid2: "ValidRune ((s0 mod 32) * 64 + s1 mod 64)"
proof -
  have "s0 mod 32 < 32" "s1 mod 64 < 64" by simp_all
  then show ?thesis unfolding ValidRune_def by linarith
qed

lemma valid3:
  assumes "224 \<le> s0" "s0 < 240" "accept_lo s0 \<le> s1" "s1 \<le> accept_hi s0"
  shows "ValidRune ((s0 mod 16) * 4096 + (s1 mod 64) * 64 + s2 mod 64)"
proof -
  define k j m where "k = s0 - 224" and "j = s1 - 128" and "m = s2 mod 64"
  have s0: "s0 = 224 + k" and k: "k < 16" using assms by (simp_all add: k_def)
  have "128 \<le> s1" "s1 \<le> 191"
    using assms(3,4) by (simp_all add: accept_lo_def accept_hi_def split: if_splits)
  then have s1: "s1 = 128 + j" and j: "j < 64" by (simp_all add: j_def)
  have m: "m < 64" by (simp add: m_def)
  have k': "s0 mod 16 = k" unfolding s0 using k mod_add_mult [of k 16 14] by simp
  have j': "s1 mod 64 = j" unfolding s1 using j mod_add_mult [of j 64 2] by simp
  have hi: "j < 32" if "k = 13" using that assms(4) s0 s1 by (simp add: accept_hi_def)
  have "k < 13 \<or> k = 13 \<or> 13 < k" by linarith
  then show ?thesis
    unfolding k' j' m_def [symmetric] ValidRune_def using k j m hi by auto
qed

lemma valid4:
  assumes "240 \<le> s0" "s0 \<le> 244" "accept_lo s0 \<le> s1" "s1 \<le> accept_hi s0"
  shows "ValidRune ((s0 mod 8) * 262144 + (s1 mod 64) * 4096 + (s2 mod 64) * 64 + s3 mod 64)"
proof -
  define k j m n where "k = s0 - 240" and "j = s1 - 128" and "m = s2 mod 64" and "n = s3 mod 64"
  have s0: "s0 = 240 + k" and k: "k < 5" using assms by (simp_all add: k_def)
  have "128 \<le> s1" "s1 \<le> 191"
    using assms(3,4) by (simp_all add: accept_lo_def accept_hi_def split: if_splits)
  then have s1: "s1 = 128 + j" and j: "j < 64" by (simp_all add: j_def)
  have m: "m < 64" and n: "n < 64" by (simp_all add: m_def n_def)
  have k': "s0 mod 8 = k" unfolding s0 using k mod_add_mult [of k 8 30] by simp
  have j': "s1 mod 64 = j" unfolding s1 using j mod_add_mult [of j 64 2] by simp
  have hi: "j < 16" if "k = 4" using that assms(4) s0 s1 by (simp add: accept_hi_def)
  have lo: "16 \<le> j" if "k = 0" using that assms(3) s0 s1 by (simp add: accept_lo_def)
  have "k = 0 \<or> (0 < k \<and> k < 4) \<or> k = 4" using k by linarith
  then show ?thesis
    unfolding k' j' m_def [symmetric] n_def [symmetric] ValidRune_def using k j m n hi lo by auto
qed

lemma DecodeRuneInString_valid: "ValidRune (fst (DecodeRuneInString s))"
proof (cases s)
  case Nil
  then show ?thesis by (simp add: ValidRune_RuneError)
next
  case (Cons c cs)
  have v1: "of_char c < (128::nat) \<Longrightarrow> ValidRune (of_char c)" by (simp add: ValidRune_def)
  show ?thesis
    unfolding Cons DecodeRuneInString.simps Let_def
    by (auto simp add: ValidRune_RuneError v1 valid2 valid3 valid4 lead_size_def not_less
             simp del: of_char_of split: if_splits)
qed

lemma string_to_runes_valid: "r \<in> set (string_to_runes s) \<Longrightarrow> ValidRune r"
proof (induction s rule: string_to_runes.induct)
  case (1 s)
  show ?case
  proof (cases "s = []")
    case True
    with "1.prems" show ?thesis by (simp add: string_to_runes.simps)
  next
    case False
    with "1.prems" have "r = fst (DecodeRuneInString s)
        \<or> r \<in> set (string_to_runes (drop (snd (DecodeRuneInString s)) s))"
      by (subst (asm) string_to_runes.simps) auto
    with False "1.IH" show ?thesis by (auto simp add: DecodeRuneInString_valid)
  qed
qed

lemma norm_rune_runes: "map norm_rune (take n (string_to_runes s)) = take n (string_to_runes s)"
  by (rule map_idI) (auto simp add: norm_rune_def dest: in_set_takeD string_to_runes_valid)

lemma string_to_runes_Nil: "string_to_runes [] = []"
  by (simp add: string_to_runes.simps)

lemma string_to_runes_dots: "string_to_runes ''...'' = [46, 46, 46]"
  by (simp add: string_to_runes.simps)

lemma string_to_runes_trunc:
  "string_to_runes (runes_to_string (take n (string_to_runes s)) @ t)
     = take n (string_to_runes s) @ string_to_runes t"
  by (simp add: string_to_runes_runes_to_string norm_rune_runes)

section \<open>Encoding what was decoded\<close>

lemma Decode_elim:
  assumes "DecodeRuneInString (c # cs) = (r, sz)" "(r, sz) \<noteq> (RuneError, 1)"
  obtains (one) "of_char c < (128::nat)" "r = of_char c" "sz = 1"
  | (two) c1 cs' where "cs = c1 # cs'" "194 \<le> (of_char c :: nat)" "(of_char c :: nat) < 224"
      "accept_lo (of_char c) \<le> of_char c1" "of_char c1 \<le> accept_hi (of_char c)"
      "r = (of_char c mod 32) * 64 + of_char c1 mod 64" "sz = 2"
  | (three) c1 c2 cs' where "cs = c1 # c2 # cs'" "224 \<le> (of_char c :: nat)"
      "(of_char c :: nat) < 240"
      "accept_lo (of_char c) \<le> of_char c1" "of_char c1 \<le> accept_hi (of_char c)"
      "128 \<le> (of_char c2 :: nat)" "(of_char c2 :: nat) \<le> 191"
      "r = (of_char c mod 16) * 4096 + (of_char c1 mod 64) * 64 + of_char c2 mod 64" "sz = 3"
  | (four) c1 c2 c3 cs' where "cs = c1 # c2 # c3 # cs'" "240 \<le> (of_char c :: nat)"
      "(of_char c :: nat) \<le> 244"
      "accept_lo (of_char c) \<le> of_char c1" "of_char c1 \<le> accept_hi (of_char c)"
      "128 \<le> (of_char c2 :: nat)" "(of_char c2 :: nat) \<le> 191"
      "128 \<le> (of_char c3 :: nat)" "(of_char c3 :: nat) \<le> 191"
      "r = (of_char c mod 8) * 262144 + (of_char c1 mod 64) * 4096 + (of_char c2 mod 64) * 64
             + of_char c3 mod 64" "sz = 4"
proof -
  consider "cs = []" | c1 where "cs = [c1]" | c1 c2 where "cs = [c1, c2]"
    | c1 c2 c3 cs' where "cs = c1 # c2 # c3 # cs'"
    by (cases cs rule: list.exhaust [case_product list.exhaust [case_product list.exhaust]])
       (metis list.exhaust)+
  then show thesis
  proof cases
    case 1
    with assms one show ?thesis
      by (auto simp add: Let_def lead_size_def split: if_splits simp del: of_char_of)
  next
    case 2
    with assms one two [of c1 "[]"] show ?thesis
      by (auto simp add: Let_def lead_size_def not_less split: if_splits simp del: of_char_of)
  next
    case 3
    with assms one two [of c1 "[c2]"] three [of c1 c2 "[]"] show ?thesis
      by (auto simp add: Let_def lead_size_def not_less split: if_splits simp del: of_char_of)
  next
    case 4
    with assms one two [of c1 "c2 # c3 # cs'"] three [of c1 c2 "c3 # cs'"] four [of c1 c2 c3 cs']
    show ?thesis
      by (auto simp add: Let_def lead_size_def not_less split: if_splits simp del: of_char_of)
  qed
qed

lemma div_step: "m < 64 \<Longrightarrow> (q * 64 + m) div 64 = (q::nat)"
  by simp

lemma mod_step: "m < 64 \<Longrightarrow> (q * 64 + m) mod 64 = (m::nat)"
  by simp

lemma char_of_of_char_nat: "char_of (of_char c :: nat) = c"
  by simp

lemma Encode_Decode:
  assumes d: "DecodeRuneInString s = (r, sz)" and ne: "s \<noteq> []"
    and ok: "(r, sz) \<noteq> (RuneError, 1)"
  shows "EncodeRune r = take sz s"
proof -
  from ne obtain c cs where s: "s = c # cs" by (cases s) auto
  from d [unfolded s] ok show ?thesis
  proof (cases rule: Decode_elim)
    case one
    then show ?thesis by (simp add: s EncodeRune_def)
  next
    case (two c1 cs')
    define k j where "k = (of_char c :: nat) - 192" and "j = (of_char c1 :: nat) - 128"
    have s0: "of_char c = 192 + k" and k: "2 \<le> k" "k < 32" using two by (simp_all add: k_def)
    have "128 \<le> (of_char c1 :: nat)" "(of_char c1 :: nat) \<le> 191"
      using two(2-5) by (simp_all add: accept_lo_def accept_hi_def split: if_splits)
    then have s1: "of_char c1 = 128 + j" and j: "j < 64" by (simp_all add: j_def)
    have k': "(192 + k) mod 32 = k" using k mod_add_mult [of k 32 6] by simp
    have j': "(128 + j) mod 64 = j" using j mod_add_mult [of j 64 2] by simp
    have r: "r = k * 64 + j" using two(6) by (simp add: s0 s1 k' j')
    have "r div 64 = k" "r mod 64 = j" unfolding r using j by (simp_all only: div_step mod_step)
    moreover have "127 < r" "r \<le> 2047" using k j by (simp_all add: r)
    ultimately have "EncodeRune r = [char_of (192 + k), char_of (128 + j)]"
      by (simp add: EncodeRune_def)
    also have "\<dots> = [c, c1]"
      unfolding s0 [symmetric] s1 [symmetric] by (simp only: char_of_of_char_nat)
    finally show ?thesis by (simp add: s two(1,7))
  next
    case (three c1 c2 cs')
    define k j m where "k = (of_char c :: nat) - 224" and "j = (of_char c1 :: nat) - 128"
      and "m = (of_char c2 :: nat) - 128"
    have s0: "of_char c = 224 + k" and k: "k < 16" using three by (simp_all add: k_def)
    have "128 \<le> (of_char c1 :: nat)" "(of_char c1 :: nat) \<le> 191"
      using three(4,5) by (simp_all add: accept_lo_def accept_hi_def split: if_splits)
    then have s1: "of_char c1 = 128 + j" and j: "j < 64" by (simp_all add: j_def)
    have s2: "of_char c2 = 128 + m" and m: "m < 64" using three by (simp_all add: m_def)
    have lo: "32 \<le> j" if "k = 0" using that three(4) s0 s1 by (simp add: accept_lo_def)
    have hi: "j < 32" if "k = 13" using that three(5) s0 s1 by (simp add: accept_hi_def)
    have k': "(224 + k) mod 16 = k" using k mod_add_mult [of k 16 14] by simp
    have j': "(128 + j) mod 64 = j" using j mod_add_mult [of j 64 2] by simp
    have m': "(128 + m) mod 64 = m" using m mod_add_mult [of m 64 2] by simp
    have r: "r = k * 4096 + j * 64 + m" using three(8) by (simp add: s0 s1 s2 k' j' m')
    have r64: "r = (k * 64 + j) * 64 + m" by (simp add: r)
    have d1: "r div 64 = k * 64 + j" unfolding r64 using m by (rule div_step)
    have d0: "r mod 64 = m" unfolding r64 using m by (rule mod_step)
    have "r div 4096 = r div 64 div 64" by (simp add: div_mult2_eq)
    then have d2: "r div 4096 = k" unfolding d1 using j by (simp only: div_step)
    have d1': "r div 64 mod 64 = j" unfolding d1 using j by (rule mod_step)
    have "k = 0 \<or> (0 < k \<and> k < 13) \<or> k = 13 \<or> 13 < k" by linarith
    then have rng: "2047 < r \<and> r \<le> 65535 \<and> (r < 55296 \<or> 57343 < r)"
      using k j m lo hi unfolding r by auto
    then have "EncodeRune r = [char_of (224 + k), char_of (128 + j), char_of (128 + m)]"
      by (auto simp add: EncodeRune_def d2 d1' d0)
    also have "\<dots> = [c, c1, c2]"
      unfolding s0 [symmetric] s1 [symmetric] s2 [symmetric] by (simp only: char_of_of_char_nat)
    finally show ?thesis by (simp add: s three(1,9))
  next
    case (four c1 c2 c3 cs')
    define k j m n where "k = (of_char c :: nat) - 240" and "j = (of_char c1 :: nat) - 128"
      and "m = (of_char c2 :: nat) - 128" and "n = (of_char c3 :: nat) - 128"
    have s0: "of_char c = 240 + k" and k: "k < 5" using four by (simp_all add: k_def)
    have "128 \<le> (of_char c1 :: nat)" "(of_char c1 :: nat) \<le> 191"
      using four(4,5) by (simp_all add: accept_lo_def accept_hi_def split: if_splits)
    then have s1: "of_char c1 = 128 + j" and j: "j < 64" by (simp_all add: j_def)
    have s2: "of_char c2 = 128 + m" and m: "m < 64" using four by (simp_all add: m_def)
    have s3: "of_char c3 = 128 + n" and n: "n < 64" using four by (simp_all add: n_def)
    have lo: "16 \<le> j" if "k = 0" using that four(4) s0 s1 by (simp add: accept_lo_def)
    have hi: "j < 16" if "k = 4" using that four(5) s0 s1 by (simp add: accept_hi_def)
    have k': "(240 + k) mod 8 = k" using k mod_add_mult [of k 8 30] by simp
    have j': "(128 + j) mod 64 = j" using j mod_add_mult [of j 64 2] by simp
    have m': "(128 + m) mod 64 = m" using m mod_add_mult [of m 64 2] by simp
    have n': "(128 + n) mod 64 = n" using n mod_add_mult [of n 64 2] by simp
    have r: "r = k * 262144 + j * 4096 + m * 64 + n"
      using four(10) by (simp add: s0 s1 s2 s3 k' j' m' n')
    have r64: "r = ((k * 64 + j) * 64 + m) * 64 + n" by (simp add: r)
    have d1: "r div 64 = (k * 64 + j) * 64 + m" unfolding r64 using n by (rule div_step)
    have d0: "r mod 64 = n" unfolding r64 using n by (rule mod_step)
    have "r div 4096 = r div 64 div 64" by (simp add: div_mult2_eq)
    then have d2: "r div 4096 = k * 64 + j" unfolding d1 using m by (simp only: div_step)
    have "r div 262144 = r div 4096 div 64" by (simp add: div_mult2_eq)
    then have d3: "r div 262144 = k" unfolding d2 using j by (simp only: div_step)
    have d1': "r div 64 mod 64 = m" unfolding d1 using m by (rule mod_step)
    have d2': "r div 4096 mod 64 = j" unfolding d2 using j by (rule mod_step)
    have "k = 0 \<or> (0 < k \<and> k < 4) \<or> k = 4" using k by linarith
    then have rng: "65535 < r \<and> r \<le> 1114111"
      using k j m n lo hi unfolding r by auto
    then have "EncodeRune r
        = [char_of (240 + k), char_of (128 + j), char_of (128 + m), char_of (128 + n)]"
      by (auto simp add: EncodeRune_def d3 d2' d1' d0)
    also have "\<dots> = [c, c1, c2, c3]"
      unfolding s0 [symmetric] s1 [symmetric] s2 [symmetric] s3 [symmetric]
      by (simp only: char_of_of_char_nat)
    finally show ?thesis by (simp add: s four(1,11))
  qed
qed

lemma runes_to_string_string_to_runes:
  "ValidString s \<Longrightarrow> runes_to_string (string_to_runes s) = s"
proof (induction s rule: string_to_runes.induct)
  case (1 s)
  show ?case
  proof (cases "s = []")
    case True
    then show ?thesis by (simp add: string_to_runes.simps runes_to_string_def)
  next
    case False
    obtain r sz where d: "DecodeRuneInString s = (r, sz)" by (cases "DecodeRuneInString s")
    from "1.prems" False have ok: "(r, sz) \<noteq> (RuneError, 1)" and v: "ValidString (drop sz s)"
      by (subst (asm) ValidString.simps, simp add: d)+
    have "runes_to_string (string_to_runes (drop sz s)) = drop sz s"
      using "1.IH" [OF False] v by (simp add: d)
    moreover have "EncodeRune r = take sz s" by (rule Encode_Decode [OF d False ok])
    moreover have "string_to_runes s = r # string_to_runes (drop sz s)"
      using False by (subst string_to_runes.simps) (simp add: d)
    ultimately show ?thesis by (simp add: runes_to_string_def)
  qed
qed

lemma runes_to_string_take_prefix:
  "ValidString s \<Longrightarrow> prefix (runes_to_string (take n (string_to_runes s))) s"
proof -
  assume v: "ValidString s"
  have "runes_to_string (take n (string_to_runes s)) @ runes_to_string (drop n (string_to_runes s))
      = runes_to_string (take n (string_to_runes s) @ drop n (string_to_runes s))"
    unfolding runes_to_string_def by (simp only: map_append concat_append)
  also have "\<dots> = s" using v by (simp add: runes_to_string_string_to_runes)
  finally show ?thesis by (metis prefixI)
qed

lemma ValidString_ascii: "ValidString (replicate n CHR ''a'')"
  by (induction n)
     (simp_all add: ValidString.simps [of "_ # _"] ValidString.simps [of "[]"] RuneError_def)

section \<open>Truncation to 140 code points\<close>

lemma trunc_short: "RuneCountInString message \<le> 140 \<Longrightarrow> trunc message 140 = Inr message"
  by (simp add: trunc_def)

lemma trunc_long:
  assumes long: "140 < RuneCountInString message"
  defines "r \<equiv> runes_to_string (take 137 (string_to_runes message)) @ ''...''"
  shows "trunc message 140 = Inr r"
    and "string_to_runes r = take 137 (string_to_runes message) @ string_to_runes ''...''"
    and "RuneCountInString r = 140"
proof -
  show "trunc message 140 = Inr r" using long by (simp add: trunc_def r_def)
  show rs: "string_to_runes r = take 137 (string_to_runes message) @ string_to_runes ''...''"
    unfolding r_def by (rule string_to_runes_trunc)
  have "137 \<le> length (string_to_runes message)"
    using long by (simp add: RuneCountInString_length)
  then show "RuneCountInString r = 140"
    by (simp add: RuneCountInString_length rs string_to_runes_dots)
qed

lemma string_to_runes_ascii:
  "string_to_runes (replicate n CHR ''a'') = replicate n 97"
  by (induction n) (simp_all add: string_to_runes.simps [of "_ # _"] string_to_runes_Nil)

lemma EncodeRune_a: "EncodeRune 97 = ''a''"
proof -
  have "of_char (char_of (97::nat)) = (of_char CHR ''a'' :: nat)" by simp
  then have "char_of (97::nat) = CHR ''a''" by (rule of_char_eqI)
  then show ?thesis by (simp add: EncodeRune_def)
qed

lemma runes_to_string_ascii: "runes_to_string (replicate n 97) = replicate n CHR ''a''"
  by (induction n) (simp_all add: runes_to_string_def EncodeRune_a)

lemma RuneCount_short: "RuneCountInString ''status'' = 6"
  by (simp add: RuneCountInString_length string_to_runes.simps)

lemma RuneCount_long: "RuneCountInString (replicate 141 CHR ''a'') = 141"
  by (simp add: RuneCountInString_length string_to_runes_ascii)

lemma trunc_long_ascii:
  "runes_to_string (take 137 (string_to_runes (replicate 141 CHR ''a''))) = replicate 137 CHR ''a''"
proof -
  have "take 137 (replicate 141 (97::nat)) = replicate 137 97" by simp
  then show ?thesis by (simp only: string_to_runes_ascii runes_to_string_ascii)
qed

text \<open>
  C4.  \<^verbatim>\<open>trunc(message, 140)\<close> returns the message unchanged when it has at most 140
  code points.  Otherwise it returns the first 137 code points of the message, encoded
  again, followed by \<^verbatim>\<open>...\<close>: the code points of the result are the first 137 code
  points of the message and the three dots, the result has exactly 140 code points and
  ends with \<^verbatim>\<open>...\<close>.  When the message is valid UTF-8 the 137 code points are a prefix
  of the message, byte for byte; an invalid byte is a code point \<^verbatim>\<open>U+FFFD\<close>.  It never
  panics.
\<close>

theorem trunc_140:
  "(RuneCountInString message \<le> 140 \<longrightarrow> trunc message 140 = Inr message) \<and>
   (140 < RuneCountInString message \<longrightarrow>
      (\<exists>r. trunc message 140 = Inr r \<and>
           r = runes_to_string (take 137 (string_to_runes message)) @ ''...'' \<and>
           string_to_runes r = take 137 (string_to_runes message) @ string_to_runes ''...'' \<and>
           RuneCountInString r = 140 \<and> suffix ''...'' r)) \<and>
   (ValidString message \<longrightarrow>
      prefix (runes_to_string (take 137 (string_to_runes message))) message)"
proof (intro conjI impI)
  assume "RuneCountInString message \<le> 140"
  then show "trunc message 140 = Inr message" by (rule trunc_short)
next
  assume "ValidString message"
  then show "prefix (runes_to_string (take 137 (string_to_runes message))) message"
    by (rule runes_to_string_take_prefix)
next
  assume long: "140 < RuneCountInString message"
  have "suffix ''...'' (runes_to_string (take 137 (string_to_runes message)) @ ''...'')"
    by (rule suffix_appendI) simp
  with trunc_long [OF long]
  show "\<exists>r. trunc message 140 = Inr r \<and>
           r = runes_to_string (take 137 (string_to_runes message)) @ ''...'' \<and>
           string_to_runes r = take 137 (string_to_runes message) @ string_to_runes ''...'' \<and>
           RuneCountInString r = 140 \<and> suffix ''...'' r"
    by blast
qed

theorem trunc_140_witness:
  "RuneCountInString ''status'' \<le> 140 \<and>
   trunc ''status'' 140 = (Inr ''status'' :: unit panic + string) \<and>
   140 < RuneCountInString (replicate 141 CHR ''a'') \<and>
   trunc (replicate 141 CHR ''a'') 140
     = (Inr (replicate 137 CHR ''a'' @ ''...'') :: unit panic + string) \<and>
   ValidString (replicate 141 CHR ''a'') \<and>
   prefix (replicate 137 CHR ''a'') (replicate 141 CHR ''a'')"
proof -
  have short: "RuneCountInString ''status'' \<le> 140" by (simp add: RuneCount_short)
  have long: "140 < RuneCountInString (replicate 141 CHR ''a'')" by (simp add: RuneCount_long)
  from trunc_140 [of "''status''", where ?'a = unit] short
  have 1: "trunc ''status'' 140 = (Inr ''status'' :: unit panic + string)" by blast
  from trunc_140 [of "replicate 141 CHR ''a''", where ?'a = unit] long
  have 2: "trunc (replicate 141 CHR ''a'') 140
     = (Inr (replicate 137 CHR ''a'' @ ''...'') :: unit panic + string)"
    unfolding trunc_long_ascii by blast
  have v: "ValidString (replicate 141 CHR ''a'')" by (rule ValidString_ascii)
  from trunc_140 [of "replicate 141 CHR ''a''", where ?'a = unit] v
  have 3: "prefix (replicate 137 CHR ''a'') (replicate 141 CHR ''a'')"
    unfolding trunc_long_ascii by blast
  from short 1 long 2 v 3 show ?thesis by blast
qed

text \<open>
  C5.  Truncation to 140 code points is idempotent: \<^verbatim>\<open>trunc(message, 140)\<close> returns a
  string, and truncating that string to 140 code points returns it unchanged.
\<close>

theorem trunc_idempotent:
  "\<exists>r. trunc message 140 = Inr r \<and> trunc r 140 = Inr r"
proof (cases "RuneCountInString message \<le> 140")
  case True
  then show ?thesis by (simp add: trunc_short)
next
  case False
  then have long: "140 < RuneCountInString message" by simp
  define r where "r = runes_to_string (take 137 (string_to_runes message)) @ ''...''"
  have "trunc message 140 = Inr r" unfolding r_def by (rule trunc_long(1) [OF long])
  moreover have "RuneCountInString r \<le> 140" unfolding r_def by (simp add: trunc_long(3) [OF long])
  then have "trunc r 140 = Inr r" by (rule trunc_short)
  ultimately show ?thesis by blast
qed

theorem trunc_idempotent_witness:
  "trunc (replicate 141 CHR ''a'') 140
     = (Inr (replicate 137 CHR ''a'' @ ''...'') :: unit panic + string) \<and>
   trunc (replicate 137 CHR ''a'' @ ''...'') 140
     = (Inr (replicate 137 CHR ''a'' @ ''...'') :: unit panic + string)"
proof -
  have t: "trunc (replicate 141 CHR ''a'') 140
     = (Inr (replicate 137 CHR ''a'' @ ''...'') :: unit panic + string)"
    using trunc_long(1) [of "replicate 141 CHR ''a''"]
    by (simp add: RuneCount_long trunc_long_ascii)
  from trunc_idempotent [of "replicate 141 CHR ''a''", where ?'a = unit]
  show ?thesis unfolding t by simp
qed

section \<open>The executor, case by case\<close>

lemma templater_fail1:
  "Execute t1 vars w = (Inl e, w1) \<Longrightarrow>
   templater Execute t1 t2 t3 t4 t5 n vars w = ((Some e, n\<lparr>GitHub := Some (payload n)\<rparr>), w1)"
  by (simp add: templater_def payload_def)

lemma templater_fail2:
  "Execute t1 vars w = (Inr s1, w1) \<Longrightarrow> Execute t2 vars w1 = (Inl e, w2) \<Longrightarrow>
   templater Execute t1 t2 t3 t4 t5 n vars w
     = ((Some e, n\<lparr>GitHub := Some ((payload n)\<lparr>RepoURL := s1\<rparr>)\<rparr>), w2)"
  by (simp add: templater_def payload_def)

lemma templater_fail3:
  "Execute t1 vars w = (Inr s1, w1) \<Longrightarrow> Execute t2 vars w1 = (Inr s2, w2) \<Longrightarrow>
   Execute t3 vars w2 = (Inl e, w3) \<Longrightarrow>
   templater Execute t1 t2 t3 t4 t5 n vars w
     = ((Some e, n\<lparr>GitHub := Some ((payload n)\<lparr>RepoURL := s1, Revision := s2\<rparr>)\<rparr>), w3)"
  by (simp add: templater_def payload_def)

lemma templater_fail4:
  "Execute t1 vars w = (Inr s1, w1) \<Longrightarrow> Execute t2 vars w1 = (Inr s2, w2) \<Longrightarrow>
   Execute t3 vars w2 = (Inr s3, w3) \<Longrightarrow> Execute t4 vars w3 = (Inl e, w4) \<Longrightarrow>
   templater Execute t1 t2 t3 t4 t5 n vars w
     = ((Some e, n\<lparr>GitHub := Some ((payload n)\<lparr>RepoURL := s1, Revision := s2, State := s3\<rparr>)\<rparr>),
        w4)"
  by (simp add: templater_def payload_def)

lemma templater_fail5:
  "Execute t1 vars w = (Inr s1, w1) \<Longrightarrow> Execute t2 vars w1 = (Inr s2, w2) \<Longrightarrow>
   Execute t3 vars w2 = (Inr s3, w3) \<Longrightarrow> Execute t4 vars w3 = (Inr s4, w4) \<Longrightarrow>
   Execute t5 vars w4 = (Inl e, w5) \<Longrightarrow>
   templater Execute t1 t2 t3 t4 t5 n vars w
     = ((Some e, n\<lparr>GitHub := Some ((payload n)\<lparr>RepoURL := s1, Revision := s2, State := s3,
                                                  Label := s4\<rparr>)\<rparr>), w5)"
  by (simp add: templater_def payload_def)

lemma templater_ok:
  "Execute t1 vars w = (Inr s1, w1) \<Longrightarrow> Execute t2 vars w1 = (Inr s2, w2) \<Longrightarrow>
   Execute t3 vars w2 = (Inr s3, w3) \<Longrightarrow> Execute t4 vars w3 = (Inr s4, w4) \<Longrightarrow>
   Execute t5 vars w4 = (Inr s5, w5) \<Longrightarrow>
   templater Execute t1 t2 t3 t4 t5 n vars w
     = ((None, n\<lparr>GitHub := Some ((payload n)\<lparr>RepoURL := s1, Revision := s2, State := s3,
                                               Label := s4, TargetURL := s5\<rparr>)\<rparr>), w5)"
  by (simp add: templater_def payload_def)

lemma GetTemplater_Inr:
  "GetTemplater Parse Execute g name f = Inr T \<longleftrightarrow>
     (\<exists>t1 t2 t3 t4 t5. Parse name f (repoURLtemplate g) = Inr t1 \<and>
        Parse name f (revisionTemplate g) = Inr t2 \<and> Parse name f (State g) = Inr t3 \<and>
        Parse name f (Label g) = Inr t4 \<and> Parse name f (TargetURL g) = Inr t5 \<and>
        T = templater Execute t1 t2 t3 t4 t5)"
  by (auto simp add: GetTemplater_def repoURLtemplate_def revisionTemplate_def Let_def
           split: sum.splits)

lemma GetTemplater_ok:
  "Parse name f (repoURLtemplate g) = Inr t1 \<Longrightarrow> Parse name f (revisionTemplate g) = Inr t2 \<Longrightarrow>
   Parse name f (State g) = Inr t3 \<Longrightarrow> Parse name f (Label g) = Inr t4 \<Longrightarrow>
   Parse name f (TargetURL g) = Inr t5 \<Longrightarrow>
   GetTemplater Parse Execute g name f = Inr (templater Execute t1 t2 t3 t4 t5)"
  by (simp add: GetTemplater_Inr)

section \<open>The small engine on the default templates\<close>

lemma mini_Parse_defaultRepoURL:
  "mini_Parse name f defaultRepoURLtemplate
     = Inr [FieldChain [''app'', ''spec'', ''source'', ''repoURL'']]"
  by (simp add: mini_Parse_def defaultRepoURLtemplate_def mk_field_def trim_blanks_def Let_def mk_text_def)

lemma mini_Parse_defaultRevision:
  "mini_Parse name f defaultRevisionTemplate
     = Inr [FieldChain [''app'', ''status'', ''operationState'', ''syncResult'', ''revision'']]"
  by (simp add: mini_Parse_def defaultRevisionTemplate_def mk_field_def trim_blanks_def Let_def mk_text_def)

lemma mini_Parse_empty: "mini_Parse name f [] = Inr []"
  by (simp add: mini_Parse_def mk_text_def)

lemma mini_Parse_unclosed: "mini_Parse name f ''{{'' = Inl (ParseError name ''unclosed action'')"
  by (simp add: mini_Parse_def)

lemma mini_Execute_empty: "mini_Execute [] vars w = (Inr [], w @ [[]])"
  by (simp add: mini_Execute_def)

text \<open>
  C3.  The executor that \<^verbatim>\<open>GetTemplater\<close> returns runs the five compiled templates in
  the order repoURL, revision, state, label, targetURL, each on the state the one before
  left.  When one execution fails the executor returns that error at once: the state is
  the one that execution left, so no later template was executed, and the payload has
  the fields written before the failure.
\<close>

theorem GetTemplater_executes_in_order:
  assumes "GetTemplater Parse Execute g name f = Inr T"
    and "Parse name f (repoURLtemplate g) = Inr repoURL"
    and "Parse name f (revisionTemplate g) = Inr revision"
    and "Parse name f (State g) = Inr state"
    and "Parse name f (Label g) = Inr label"
    and "Parse name f (TargetURL g) = Inr targetURL"
  shows
     "(\<forall>e w1. Execute repoURL vars w = (Inl e, w1) \<longrightarrow>
         T n vars w = ((Some e, n\<lparr>GitHub := Some (payload n)\<rparr>), w1)) \<and>
      (\<forall>s1 w1 e w2. Execute repoURL vars w = (Inr s1, w1) \<and>
         Execute revision vars w1 = (Inl e, w2) \<longrightarrow>
         T n vars w = ((Some e, n\<lparr>GitHub := Some ((payload n)\<lparr>RepoURL := s1\<rparr>)\<rparr>), w2)) \<and>
      (\<forall>s1 w1 s2 w2 e w3. Execute repoURL vars w = (Inr s1, w1) \<and>
         Execute revision vars w1 = (Inr s2, w2) \<and> Execute state vars w2 = (Inl e, w3) \<longrightarrow>
         T n vars w
           = ((Some e, n\<lparr>GitHub := Some ((payload n)\<lparr>RepoURL := s1, Revision := s2\<rparr>)\<rparr>), w3)) \<and>
      (\<forall>s1 w1 s2 w2 s3 w3 e w4. Execute repoURL vars w = (Inr s1, w1) \<and>
         Execute revision vars w1 = (Inr s2, w2) \<and> Execute state vars w2 = (Inr s3, w3) \<and>
         Execute label vars w3 = (Inl e, w4) \<longrightarrow>
         T n vars w
           = ((Some e, n\<lparr>GitHub := Some ((payload n)\<lparr>RepoURL := s1, Revision := s2,
                                                         State := s3\<rparr>)\<rparr>), w4)) \<and>
      (\<forall>s1 w1 s2 w2 s3 w3 s4 w4 e w5. Execute repoURL vars w = (Inr s1, w1) \<and>
         Execute revision vars w1 = (Inr s2, w2) \<and> Execute state vars w2 = (Inr s3, w3) \<and>
         Execute label vars w3 = (Inr s4, w4) \<and> Execute targetURL vars w4 = (Inl e, w5) \<longrightarrow>
         T n vars w
           = ((Some e, n\<lparr>GitHub := Some ((payload n)\<lparr>RepoURL := s1, Revision := s2,
                                                         State := s3, Label := s4\<rparr>)\<rparr>), w5)) \<and>
      (\<forall>s1 w1 s2 w2 s3 w3 s4 w4 s5 w5. Execute repoURL vars w = (Inr s1, w1) \<and>
         Execute revision vars w1 = (Inr s2, w2) \<and> Execute state vars w2 = (Inr s3, w3) \<and>
         Execute label vars w3 = (Inr s4, w4) \<and> Execute targetURL vars w4 = (Inr s5, w5) \<longrightarrow>
         T n vars w
           = ((None, n\<lparr>GitHub := Some ((payload n)\<lparr>RepoURL := s1, Revision := s2,
                                                      State := s3, Label := s4,
                                                      TargetURL := s5\<rparr>)\<rparr>), w5))"
proof -
  have T: "T = templater Execute repoURL revision state label targetURL"
    using assms by (simp add: GetTemplater_Inr)
  show ?thesis
    unfolding T
    apply (intro allI conjI impI)
         apply (erule templater_fail1)
        apply (elim conjE, erule (1) templater_fail2)
       apply (elim conjE, erule (2) templater_fail3)
      apply (elim conjE, erule (3) templater_fail4)
     apply (elim conjE, erule (4) templater_fail5)
    apply (elim conjE, erule (4) templater_ok)
    done
qed

lemma state_fails_parse:
  "mini_Parse name f (repoURLtemplate cfg_state_fails)
     = Inr [FieldChain [''app'', ''spec'', ''source'', ''repoURL'']]"
  "mini_Parse name f (revisionTemplate cfg_state_fails)
     = Inr [FieldChain [''app'', ''status'', ''operationState'', ''syncResult'', ''revision'']]"
  "mini_Parse name f (State cfg_state_fails)
     = Inr [FieldChain [''app'', ''spec'', ''source'', ''repoURL'', ''bad'']]"
  "mini_Parse name f (Label cfg_state_fails) = Inr [Text ''ci'']"
  "mini_Parse name f (TargetURL cfg_state_fails) = Inr [Text ''http://x'']"
  by (simp_all add: cfg_state_fails_def repoURLtemplate_def revisionTemplate_def
        mini_Parse_defaultRepoURL mini_Parse_defaultRevision)
     (simp_all add: mini_Parse_def mk_field_def trim_blanks_def Let_def mk_text_def)

lemma example_exec:
  "mini_Execute [FieldChain [''app'', ''spec'', ''source'', ''repoURL'']] example_vars w
     = (Inr ''https://x/y/z.git'', w @ [[FieldChain [''app'', ''spec'', ''source'', ''repoURL'']]])"
  "mini_Execute [FieldChain [''app'', ''status'', ''operationState'', ''syncResult'', ''revision'']]
       example_vars w
     = (Inr ''<no value>'',
        w @ [[FieldChain [''app'', ''status'', ''operationState'', ''syncResult'', ''revision'']]])"
  "mini_Execute [FieldChain [''app'', ''spec'', ''source'', ''repoURL'', ''bad'']] example_vars w
     = (Inl (ExecError ''bad''),
        w @ [[FieldChain [''app'', ''spec'', ''source'', ''repoURL'', ''bad'']]])"
  by (simp_all add: mini_Execute_def example_vars_def)

theorem GetTemplater_executes_in_order_witness:
  "\<exists>T. GetTemplater mini_Parse mini_Execute cfg_state_fails ''n'' () = Inr T \<and>
     T note_fresh example_vars []
       = ((Some (ExecError ''bad''),
           \<lparr>Message = ''deployed'',
            GitHub = Some \<lparr>State = [], Label = [], TargetURL = [],
                           RepoURL = ''https://x/y/z.git'', Revision = ''<no value>''\<rparr>\<rparr>),
          [[FieldChain [''app'', ''spec'', ''source'', ''repoURL'']],
           [FieldChain [''app'', ''status'', ''operationState'', ''syncResult'', ''revision'']],
           [FieldChain [''app'', ''spec'', ''source'', ''repoURL'', ''bad'']]])"
proof -
  define T :: "Notification \<Rightarrow> val \<Rightarrow> node list list
      \<Rightarrow> (tmpl_error option \<times> Notification) \<times> node list list"
    where "T = templater mini_Execute
      [FieldChain [''app'', ''spec'', ''source'', ''repoURL'']]
      [FieldChain [''app'', ''status'', ''operationState'', ''syncResult'', ''revision'']]
      [FieldChain [''app'', ''spec'', ''source'', ''repoURL'', ''bad'']]
      [Text ''ci''] [Text ''http://x'']"
  have c: "GetTemplater mini_Parse mini_Execute cfg_state_fails ''n'' () = Inr T"
    unfolding T_def by (rule GetTemplater_ok) (rule state_fails_parse)+
  note H = GetTemplater_executes_in_order [OF c state_fails_parse, of example_vars "[]" note_fresh]
  note H3 = H [THEN conjunct2, THEN conjunct2, THEN conjunct1, rule_format]
  have "T note_fresh example_vars []
      = ((Some (ExecError ''bad''),
          note_fresh\<lparr>GitHub := Some ((payload note_fresh)\<lparr>RepoURL := ''https://x/y/z.git'',
                                                            Revision := ''<no value>''\<rparr>)\<rparr>),
         (([] @ [[FieldChain [''app'', ''spec'', ''source'', ''repoURL'']]])
            @ [[FieldChain [''app'', ''status'', ''operationState'', ''syncResult'', ''revision'']]])
            @ [[FieldChain [''app'', ''spec'', ''source'', ''repoURL'', ''bad'']]])"
    by (rule H3 [OF conjI [OF example_exec(1) conjI [OF example_exec(2) example_exec(3)]]])
  then show ?thesis
    using c by (simp add: note_fresh_def payload_def emptyGitHubNotification_def)
qed

lemma templater_frame:
  assumes "GitHub n = Some p" and "templater Execute t1 t2 t3 t4 t5 n vars w = ((r, n'), w')"
  shows "Message n' = Message n" and "Notification.more n' = Notification.more n"
    and "\<exists>p'. GitHub n' = Some p'"
  using assms by (auto simp add: templater_def Let_def split: prod.splits sum.splits)

text \<open>
  C10.  When the notification carries a payload, the executor works on that payload and
  clears nothing: if the execution for a field fails, that field and every field after
  it hold the values they had before the call.  The message and the rest of the
  notification are never written, and the payload stays in place.
\<close>

theorem executor_reuses_payload:
  assumes "GetTemplater Parse Execute g name f = Inr T"
    and "Parse name f (repoURLtemplate g) = Inr repoURL"
    and "Parse name f (revisionTemplate g) = Inr revision"
    and "Parse name f (State g) = Inr state"
    and "Parse name f (Label g) = Inr label"
    and "Parse name f (TargetURL g) = Inr targetURL"
    and "GitHub n = Some p"
    and "T n vars w = ((r, n'), w')"
  shows "Message n' = Message n \<and> Notification.more n' = Notification.more n \<and>
    (\<exists>p'. GitHub n' = Some p' \<and>
      (\<forall>e w1. Execute repoURL vars w = (Inl e, w1) \<longrightarrow> r = Some e \<and> p' = p) \<and>
      (\<forall>s1 w1 e w2. Execute repoURL vars w = (Inr s1, w1) \<and>
         Execute revision vars w1 = (Inl e, w2) \<longrightarrow>
         r = Some e \<and> Revision p' = Revision p \<and> State p' = State p \<and>
         Label p' = Label p \<and> TargetURL p' = TargetURL p) \<and>
      (\<forall>s1 w1 s2 w2 e w3. Execute repoURL vars w = (Inr s1, w1) \<and>
         Execute revision vars w1 = (Inr s2, w2) \<and> Execute state vars w2 = (Inl e, w3) \<longrightarrow>
         r = Some e \<and> State p' = State p \<and> Label p' = Label p \<and> TargetURL p' = TargetURL p) \<and>
      (\<forall>s1 w1 s2 w2 s3 w3 e w4. Execute repoURL vars w = (Inr s1, w1) \<and>
         Execute revision vars w1 = (Inr s2, w2) \<and> Execute state vars w2 = (Inr s3, w3) \<and>
         Execute label vars w3 = (Inl e, w4) \<longrightarrow>
         r = Some e \<and> Label p' = Label p \<and> TargetURL p' = TargetURL p) \<and>
      (\<forall>s1 w1 s2 w2 s3 w3 s4 w4 e w5. Execute repoURL vars w = (Inr s1, w1) \<and>
         Execute revision vars w1 = (Inr s2, w2) \<and> Execute state vars w2 = (Inr s3, w3) \<and>
         Execute label vars w3 = (Inr s4, w4) \<and> Execute targetURL vars w4 = (Inl e, w5) \<longrightarrow>
         r = Some e \<and> TargetURL p' = TargetURL p))"
proof -
  have T: "T = templater Execute repoURL revision state label targetURL"
    using assms(1-6) by (simp add: GetTemplater_Inr)
  have run: "templater Execute repoURL revision state label targetURL n vars w = ((r, n'), w')"
    using assms(8) by (simp only: T)
  have pl: "payload n = p" using assms(7) by (simp add: payload_def)
  obtain p' where p': "GitHub n' = Some p'"
    using templater_frame(3) [OF assms(7) run] by blast
  have c1: "\<forall>e w1. Execute repoURL vars w = (Inl e, w1) \<longrightarrow>
         r = Some e \<and> p' = p"
  proof (intro allI impI, (elim conjE)?)
    fix e w1
    assume a0: "Execute repoURL vars w = (Inl e, w1)"
    show "r = Some e \<and> p' = p"
      using templater_fail1 [where Execute = Execute and n = n, OF a0] run p' pl by auto
  qed
  have c2: "\<forall>s1 w1 e w2. Execute repoURL vars w = (Inr s1, w1) \<and>
         Execute revision vars w1 = (Inl e, w2) \<longrightarrow>
         r = Some e \<and> Revision p' = Revision p \<and> State p' = State p \<and>
         Label p' = Label p \<and> TargetURL p' = TargetURL p"
  proof (intro allI impI, (elim conjE)?)
    fix s1 w1 e w2
    assume a0: "Execute repoURL vars w = (Inr s1, w1)"
      and a1: "Execute revision vars w1 = (Inl e, w2)"
    show "r = Some e \<and> Revision p' = Revision p \<and> State p' = State p \<and>
         Label p' = Label p \<and> TargetURL p' = TargetURL p"
      using templater_fail2 [where Execute = Execute and n = n, OF a0 a1] run p' pl by auto
  qed
  have c3: "\<forall>s1 w1 s2 w2 e w3. Execute repoURL vars w = (Inr s1, w1) \<and>
         Execute revision vars w1 = (Inr s2, w2) \<and>
         Execute state vars w2 = (Inl e, w3) \<longrightarrow>
         r = Some e \<and> State p' = State p \<and> Label p' = Label p \<and> TargetURL p' = TargetURL p"
  proof (intro allI impI, (elim conjE)?)
    fix s1 w1 s2 w2 e w3
    assume a0: "Execute repoURL vars w = (Inr s1, w1)"
      and a1: "Execute revision vars w1 = (Inr s2, w2)"
      and a2: "Execute state vars w2 = (Inl e, w3)"
    show "r = Some e \<and> State p' = State p \<and> Label p' = Label p \<and> TargetURL p' = TargetURL p"
      using templater_fail3 [where Execute = Execute and n = n, OF a0 a1 a2] run p' pl by auto
  qed
  have c4: "\<forall>s1 w1 s2 w2 s3 w3 e w4. Execute repoURL vars w = (Inr s1, w1) \<and>
         Execute revision vars w1 = (Inr s2, w2) \<and>
         Execute state vars w2 = (Inr s3, w3) \<and>
         Execute label vars w3 = (Inl e, w4) \<longrightarrow>
         r = Some e \<and> Label p' = Label p \<and> TargetURL p' = TargetURL p"
  proof (intro allI impI, (elim conjE)?)
    fix s1 w1 s2 w2 s3 w3 e w4
    assume a0: "Execute repoURL vars w = (Inr s1, w1)"
      and a1: "Execute revision vars w1 = (Inr s2, w2)"
      and a2: "Execute state vars w2 = (Inr s3, w3)"
      and a3: "Execute label vars w3 = (Inl e, w4)"
    show "r = Some e \<and> Label p' = Label p \<and> TargetURL p' = TargetURL p"
      using templater_fail4 [where Execute = Execute and n = n, OF a0 a1 a2 a3] run p' pl by auto
  qed
  have c5: "\<forall>s1 w1 s2 w2 s3 w3 s4 w4 e w5. Execute repoURL vars w = (Inr s1, w1) \<and>
         Execute revision vars w1 = (Inr s2, w2) \<and>
         Execute state vars w2 = (Inr s3, w3) \<and>
         Execute label vars w3 = (Inr s4, w4) \<and>
         Execute targetURL vars w4 = (Inl e, w5) \<longrightarrow>
         r = Some e \<and> TargetURL p' = TargetURL p"
  proof (intro allI impI, (elim conjE)?)
    fix s1 w1 s2 w2 s3 w3 s4 w4 e w5
    assume a0: "Execute repoURL vars w = (Inr s1, w1)"
      and a1: "Execute revision vars w1 = (Inr s2, w2)"
      and a2: "Execute state vars w2 = (Inr s3, w3)"
      and a3: "Execute label vars w3 = (Inr s4, w4)"
      and a4: "Execute targetURL vars w4 = (Inl e, w5)"
    show "r = Some e \<and> TargetURL p' = TargetURL p"
      using templater_fail5 [where Execute = Execute and n = n, OF a0 a1 a2 a3 a4] run p' pl by auto
  qed
  have frame: "Message n' = Message n \<and> Notification.more n' = Notification.more n"
    using templater_frame(1,2) [OF assms(7) run] by simp
  note cases = conjI [OF c1 conjI [OF c2 conjI [OF c3 conjI [OF c4 c5]]]]
  show ?thesis
    apply (rule conjI, rule frame [THEN conjunct1])
    apply (rule conjI, rule frame [THEN conjunct2])
    apply (rule exI [of _ p'])
    apply (rule conjI [OF p' cases])
    done
qed

lemma state_fails_run:
  "templater mini_Execute [FieldChain [''app'', ''spec'', ''source'', ''repoURL'']]
      [FieldChain [''app'', ''status'', ''operationState'', ''syncResult'', ''revision'']]
      [FieldChain [''app'', ''spec'', ''source'', ''repoURL'', ''bad'']] t4 t5 n example_vars []
     = ((Some (ExecError ''bad''),
         n\<lparr>GitHub := Some ((payload n)\<lparr>RepoURL := ''https://x/y/z.git'',
                                           Revision := ''<no value>''\<rparr>)\<rparr>),
        (([] @ [[FieldChain [''app'', ''spec'', ''source'', ''repoURL'']]])
           @ [[FieldChain [''app'', ''status'', ''operationState'', ''syncResult'', ''revision'']]])
           @ [[FieldChain [''app'', ''spec'', ''source'', ''repoURL'', ''bad'']]])"
  by (rule templater_fail3 [where Execute = mini_Execute,
        OF example_exec(1) example_exec(2) example_exec(3)])

theorem executor_reuses_payload_witness:
  "\<exists>T r n' w' p'.
     GetTemplater mini_Parse mini_Execute cfg_state_fails ''n'' () = Inr T \<and>
     GitHub note_stale = Some old_payload \<and>
     T note_stale example_vars [] = ((r, n'), w') \<and>
     r = Some (ExecError ''bad'') \<and> Message n' = ''deployed'' \<and> GitHub n' = Some p' \<and>
     RepoURL p' = ''https://x/y/z.git'' \<and> Revision p' = ''<no value>'' \<and>
     State p' = ''old state'' \<and> Label p' = ''old label'' \<and> TargetURL p' = ''old target''"
proof -
  define T :: "Notification \<Rightarrow> val \<Rightarrow> node list list
      \<Rightarrow> (tmpl_error option \<times> Notification) \<times> node list list"
    where "T = templater mini_Execute
      [FieldChain [''app'', ''spec'', ''source'', ''repoURL'']]
      [FieldChain [''app'', ''status'', ''operationState'', ''syncResult'', ''revision'']]
      [FieldChain [''app'', ''spec'', ''source'', ''repoURL'', ''bad'']]
      [Text ''ci''] [Text ''http://x'']"
  have c: "GetTemplater mini_Parse mini_Execute cfg_state_fails ''n'' () = Inr T"
    unfolding T_def by (rule GetTemplater_ok) (rule state_fails_parse)+
  have g: "GitHub note_stale = Some old_payload" by (simp add: note_stale_def)
  define n' where "n' = note_stale\<lparr>GitHub := Some ((payload note_stale)\<lparr>
      RepoURL := ''https://x/y/z.git'', Revision := ''<no value>''\<rparr>)\<rparr>"
  define w' where "w' = (([] @ [[FieldChain [''app'', ''spec'', ''source'', ''repoURL'']]])
      @ [[FieldChain [''app'', ''status'', ''operationState'', ''syncResult'', ''revision'']]])
      @ [[FieldChain [''app'', ''spec'', ''source'', ''repoURL'', ''bad'']]]"
  have run: "T note_stale example_vars [] = ((Some (ExecError ''bad''), n'), w')"
    unfolding T_def n'_def w'_def by (rule state_fails_run)
  let ?tR = "[FieldChain [''app'', ''spec'', ''source'', ''repoURL'']]"
  let ?tV = "[FieldChain [''app'', ''status'', ''operationState'', ''syncResult'', ''revision'']]"
  let ?tS = "[FieldChain [''app'', ''spec'', ''source'', ''repoURL'', ''bad'']]"
  note H = executor_reuses_payload [OF c state_fails_parse g run]
  have m: "Message n' = Message note_stale" by (rule H [THEN conjunct1])
  from H [THEN conjunct2, THEN conjunct2]
  obtain p' where p': "GitHub n' = Some p'"
    and k: "\<forall>s1 w1 s2 w2 e w3. mini_Execute ?tR example_vars [] = (Inr s1, w1) \<and>
         mini_Execute ?tV example_vars w1 = (Inr s2, w2) \<and>
         mini_Execute ?tS example_vars w2 = (Inl e, w3) \<longrightarrow>
         Some (ExecError ''bad'') = Some e \<and> State p' = State old_payload \<and>
         Label p' = Label old_payload \<and> TargetURL p' = TargetURL old_payload"
    by (elim exE conjE)
  have kept: "State p' = State old_payload \<and> Label p' = Label old_payload \<and>
      TargetURL p' = TargetURL old_payload"
    using k [rule_format, OF conjI [OF example_exec(1) conjI [OF example_exec(2) example_exec(3)]]]
    by simp
  have written: "RepoURL p' = ''https://x/y/z.git'' \<and> Revision p' = ''<no value>''"
    using p' by (auto simp add: n'_def)
  show ?thesis
    apply (rule exI [of _ T], rule exI [of _ "Some (ExecError ''bad'')"], rule exI [of _ n'],
           rule exI [of _ w'], rule exI [of _ p'])
    using c g run p' m kept written by (simp add: old_payload_def note_stale_def)
qed

lemma templater_RepoURL_written:
  assumes "Execute t1 vars w = (Inr s1, w1)"
  shows "\<exists>p. GitHub (snd (fst (templater Execute t1 t2 t3 t4 t5 n vars w))) = Some p \<and>
             RepoURL p = s1"
  using assms by (auto simp add: templater_def Let_def split: prod.splits sum.splits)

text \<open>
  C6.  With an empty \<^verbatim>\<open>RepoURL\<close> the configuration compiles as it does with
  \<^verbatim>\<open>{{.app.spec.source.repoURL}}\<close> in that field, and with an empty \<^verbatim>\<open>Revision\<close> as it
  does with \<^verbatim>\<open>{{.app.status.operationState.syncResult.revision}}\<close>; a string that is
  not empty is the text that is compiled.  When the template compiled from the default
  renders \<^verbatim>\<open>https://x/y/z.git\<close> on the variables, the executor leaves that string in
  \<^verbatim>\<open>payload.RepoURL\<close>.
\<close>

theorem GetTemplater_defaults:
  "(RepoURL g = [] \<longrightarrow>
      GetTemplater Parse Execute g name f
        = GetTemplater Parse Execute (g\<lparr>RepoURL := ''{{.app.spec.source.repoURL}}''\<rparr>) name f) \<and>
   (Revision g = [] \<longrightarrow>
      GetTemplater Parse Execute g name f
        = GetTemplater Parse Execute
            (g\<lparr>Revision := ''{{.app.status.operationState.syncResult.revision}}''\<rparr>) name f) \<and>
   (GetTemplater Parse Execute g name f = Inr T \<longrightarrow>
      (\<exists>t1 t2 t3 t4 t5. T = templater Execute t1 t2 t3 t4 t5 \<and>
         Parse name f (if RepoURL g = [] then ''{{.app.spec.source.repoURL}}'' else RepoURL g)
           = Inr t1 \<and>
         Parse name f (if Revision g = []
                       then ''{{.app.status.operationState.syncResult.revision}}''
                       else Revision g) = Inr t2 \<and>
         Parse name f (State g) = Inr t3 \<and> Parse name f (Label g) = Inr t4 \<and>
         Parse name f (TargetURL g) = Inr t5)) \<and>
   (RepoURL g = [] \<and> GetTemplater Parse Execute g name f = Inr T \<and>
    Parse name f ''{{.app.spec.source.repoURL}}'' = Inr t \<and>
    Execute t vars w = (Inr ''https://x/y/z.git'', w1) \<longrightarrow>
      (\<exists>p. GitHub (snd (fst (T n vars w))) = Some p \<and> RepoURL p = ''https://x/y/z.git''))"
proof (intro conjI impI)
  assume "RepoURL g = []"
  then show "GetTemplater Parse Execute g name f
        = GetTemplater Parse Execute (g\<lparr>RepoURL := ''{{.app.spec.source.repoURL}}''\<rparr>) name f"
    by (simp add: GetTemplater_def defaultRepoURLtemplate_def Let_def split: sum.splits)
next
  assume "Revision g = []"
  then show "GetTemplater Parse Execute g name f
        = GetTemplater Parse Execute
            (g\<lparr>Revision := ''{{.app.status.operationState.syncResult.revision}}''\<rparr>) name f"
    by (simp add: GetTemplater_def defaultRevisionTemplate_def Let_def split: sum.splits)
next
  assume "GetTemplater Parse Execute g name f = Inr T"
  then show "\<exists>t1 t2 t3 t4 t5. T = templater Execute t1 t2 t3 t4 t5 \<and>
         Parse name f (if RepoURL g = [] then ''{{.app.spec.source.repoURL}}'' else RepoURL g)
           = Inr t1 \<and>
         Parse name f (if Revision g = []
                       then ''{{.app.status.operationState.syncResult.revision}}''
                       else Revision g) = Inr t2 \<and>
         Parse name f (State g) = Inr t3 \<and> Parse name f (Label g) = Inr t4 \<and>
         Parse name f (TargetURL g) = Inr t5"
    unfolding GetTemplater_Inr repoURLtemplate_def revisionTemplate_def
      defaultRepoURLtemplate_def defaultRevisionTemplate_def
    by (elim exE conjE) (cases "RepoURL g = []"; cases "Revision g = []"; simp)
next
  assume a: "RepoURL g = [] \<and> GetTemplater Parse Execute g name f = Inr T \<and>
    Parse name f ''{{.app.spec.source.repoURL}}'' = Inr t \<and>
    Execute t vars w = (Inr ''https://x/y/z.git'', w1)"
  then obtain t2 t3 t4 t5 where T: "T = templater Execute t t2 t3 t4 t5"
    unfolding GetTemplater_Inr repoURLtemplate_def defaultRepoURLtemplate_def by auto
  from a have "Execute t vars w = (Inr ''https://x/y/z.git'', w1)" by simp
  then show "\<exists>p. GitHub (snd (fst (T n vars w))) = Some p \<and> RepoURL p = ''https://x/y/z.git''"
    unfolding T by (rule templater_RepoURL_written)
qed

lemma cfg_empty_parse:
  "mini_Parse name f (repoURLtemplate cfg_empty)
     = Inr [FieldChain [''app'', ''spec'', ''source'', ''repoURL'']]"
  "mini_Parse name f (revisionTemplate cfg_empty)
     = Inr [FieldChain [''app'', ''status'', ''operationState'', ''syncResult'', ''revision'']]"
  "mini_Parse name f (State cfg_empty) = Inr []"
  "mini_Parse name f (Label cfg_empty) = Inr []"
  "mini_Parse name f (TargetURL cfg_empty) = Inr []"
  by (simp_all add: cfg_empty_def repoURLtemplate_def revisionTemplate_def
        mini_Parse_defaultRepoURL mini_Parse_defaultRevision mini_Parse_empty)

theorem GetTemplater_defaults_witness:
  "RepoURL cfg_empty = [] \<and> Revision cfg_empty = [] \<and>
   (\<exists>T. GetTemplater mini_Parse mini_Execute cfg_empty ''n'' () = Inr T \<and>
      mini_Parse ''n'' () ''{{.app.spec.source.repoURL}}''
        = Inr [FieldChain [''app'', ''spec'', ''source'', ''repoURL'']] \<and>
      mini_Execute [FieldChain [''app'', ''spec'', ''source'', ''repoURL'']] example_vars []
        = (Inr ''https://x/y/z.git'', [[FieldChain [''app'', ''spec'', ''source'', ''repoURL'']]]) \<and>
      (\<exists>p. GitHub (snd (fst (T note_fresh example_vars []))) = Some p \<and>
           RepoURL p = ''https://x/y/z.git''))"
proof -
  let ?tR = "[FieldChain [''app'', ''spec'', ''source'', ''repoURL'']]"
  define T :: "Notification \<Rightarrow> val \<Rightarrow> node list list
      \<Rightarrow> (tmpl_error option \<times> Notification) \<times> node list list"
    where "T = templater mini_Execute ?tR
      [FieldChain [''app'', ''status'', ''operationState'', ''syncResult'', ''revision'']]
      [] [] []"
  have e: "RepoURL cfg_empty = []" "Revision cfg_empty = []" by (simp_all add: cfg_empty_def)
  have c: "GetTemplater mini_Parse mini_Execute cfg_empty ''n'' () = Inr T"
    unfolding T_def by (rule GetTemplater_ok) (rule cfg_empty_parse)+
  have p: "mini_Parse ''n'' () ''{{.app.spec.source.repoURL}}'' = Inr ?tR"
    using mini_Parse_defaultRepoURL [of "''n''" "()"] by (simp only: defaultRepoURLtemplate_def)
  have x: "mini_Execute ?tR example_vars [] = (Inr ''https://x/y/z.git'', [?tR])"
    using example_exec(1) [of "[]"] by simp
  note H = GetTemplater_defaults [of cfg_empty mini_Parse mini_Execute "''n''" "()" T ?tR
      example_vars "[]" "[?tR]" note_fresh]
  have "\<exists>p. GitHub (snd (fst (T note_fresh example_vars []))) = Some p \<and>
      RepoURL p = ''https://x/y/z.git''"
    by (rule H [THEN conjunct2, THEN conjunct2, THEN conjunct2, rule_format])
       (intro conjI; rule e c p x)
  with e c p x show ?thesis by blast
qed

lemma GetTemplater_parse_cases:
  "(\<forall>e. Parse name f (repoURLtemplate g) = Inl e \<longrightarrow>
      GetTemplater Parse Execute g name f = Inl e) \<and>
   (\<forall>t1 e. Parse name f (repoURLtemplate g) = Inr t1 \<and>
      Parse name f (revisionTemplate g) = Inl e \<longrightarrow>
      GetTemplater Parse Execute g name f = Inl e) \<and>
   (\<forall>t1 t2 e. Parse name f (repoURLtemplate g) = Inr t1 \<and>
      Parse name f (revisionTemplate g) = Inr t2 \<and> Parse name f (State g) = Inl e \<longrightarrow>
      GetTemplater Parse Execute g name f = Inl e) \<and>
   (\<forall>t1 t2 t3 e. Parse name f (repoURLtemplate g) = Inr t1 \<and>
      Parse name f (revisionTemplate g) = Inr t2 \<and> Parse name f (State g) = Inr t3 \<and>
      Parse name f (Label g) = Inl e \<longrightarrow>
      GetTemplater Parse Execute g name f = Inl e) \<and>
   (\<forall>t1 t2 t3 t4 e. Parse name f (repoURLtemplate g) = Inr t1 \<and>
      Parse name f (revisionTemplate g) = Inr t2 \<and> Parse name f (State g) = Inr t3 \<and>
      Parse name f (Label g) = Inr t4 \<and> Parse name f (TargetURL g) = Inl e \<longrightarrow>
      GetTemplater Parse Execute g name f = Inl e) \<and>
   (\<forall>t1 t2 t3 t4 t5. Parse name f (repoURLtemplate g) = Inr t1 \<and>
      Parse name f (revisionTemplate g) = Inr t2 \<and> Parse name f (State g) = Inr t3 \<and>
      Parse name f (Label g) = Inr t4 \<and> Parse name f (TargetURL g) = Inr t5 \<longrightarrow>
      GetTemplater Parse Execute g name f = Inr (templater Execute t1 t2 t3 t4 t5))"
  by (simp add: GetTemplater_def repoURLtemplate_def revisionTemplate_def Let_def)

lemma GetTemplater_same_error:
  assumes "Parse name f (repoURLtemplate g) = Inr t1" "Parse name f (revisionTemplate g) = Inr t2"
    and "Parse name f bad = Inl e" "Parse name f good = Inr t"
  shows "GetTemplater Parse Execute (g\<lparr>State := bad, Label := good\<rparr>) name f = Inl e"
    and "GetTemplater Parse Execute (g\<lparr>State := good, Label := bad\<rparr>) name f = Inl e"
proof -
  let ?a = "g\<lparr>State := bad, Label := good\<rparr>" and ?b = "g\<lparr>State := good, Label := bad\<rparr>"
  have a: "Parse name f (repoURLtemplate ?a) = Inr t1 \<and>
      Parse name f (revisionTemplate ?a) = Inr t2 \<and> Parse name f (State ?a) = Inl e"
    using assms by (auto simp add: repoURLtemplate_def revisionTemplate_def)
  have b: "Parse name f (repoURLtemplate ?b) = Inr t1 \<and>
      Parse name f (revisionTemplate ?b) = Inr t2 \<and> Parse name f (State ?b) = Inr t \<and>
      Parse name f (Label ?b) = Inl e"
    using assms by (auto simp add: repoURLtemplate_def revisionTemplate_def)
  show "GetTemplater Parse Execute ?a name f = Inl e"
    by (rule GetTemplater_parse_cases [where g = ?a and Parse = Parse and name = name and f = f, THEN conjunct2, THEN conjunct2,
          THEN conjunct1, rule_format, OF a])
  show "GetTemplater Parse Execute ?b name f = Inl e"
    by (rule GetTemplater_parse_cases [where g = ?b and Parse = Parse and name = name and f = f, THEN conjunct2, THEN conjunct2,
          THEN conjunct2, THEN conjunct1, rule_format, OF b])
qed

text \<open>
  C7 (amended).  \<^verbatim>\<open>GetTemplater\<close> compiles the five texts in the order repoURL, revision,
  state, label, targetURL.  The first text that fails to parse ends the compilation: no
  executor is returned, and the error returned is the one the parser gave for that text,
  unchanged.  It is the parser's error for the shared template name and does not tell
  which field the text came from: a text that fails to parse gives the same error as the
  state template and as the label template.
\<close>

theorem GetTemplater_first_parse_error:
  "(\<forall>e. Parse name f (repoURLtemplate g) = Inl e \<longrightarrow>
      GetTemplater Parse Execute g name f = Inl e) \<and>
   (\<forall>t1 e. Parse name f (repoURLtemplate g) = Inr t1 \<and>
      Parse name f (revisionTemplate g) = Inl e \<longrightarrow>
      GetTemplater Parse Execute g name f = Inl e) \<and>
   (\<forall>t1 t2 e. Parse name f (repoURLtemplate g) = Inr t1 \<and>
      Parse name f (revisionTemplate g) = Inr t2 \<and> Parse name f (State g) = Inl e \<longrightarrow>
      GetTemplater Parse Execute g name f = Inl e) \<and>
   (\<forall>t1 t2 t3 e. Parse name f (repoURLtemplate g) = Inr t1 \<and>
      Parse name f (revisionTemplate g) = Inr t2 \<and> Parse name f (State g) = Inr t3 \<and>
      Parse name f (Label g) = Inl e \<longrightarrow>
      GetTemplater Parse Execute g name f = Inl e) \<and>
   (\<forall>t1 t2 t3 t4 e. Parse name f (repoURLtemplate g) = Inr t1 \<and>
      Parse name f (revisionTemplate g) = Inr t2 \<and> Parse name f (State g) = Inr t3 \<and>
      Parse name f (Label g) = Inr t4 \<and> Parse name f (TargetURL g) = Inl e \<longrightarrow>
      GetTemplater Parse Execute g name f = Inl e) \<and>
   (\<forall>t1 t2 t3 t4 t5. Parse name f (repoURLtemplate g) = Inr t1 \<and>
      Parse name f (revisionTemplate g) = Inr t2 \<and> Parse name f (State g) = Inr t3 \<and>
      Parse name f (Label g) = Inr t4 \<and> Parse name f (TargetURL g) = Inr t5 \<longrightarrow>
      GetTemplater Parse Execute g name f = Inr (templater Execute t1 t2 t3 t4 t5)) \<and>
   (\<forall>t1 t2 bad e good t. Parse name f (repoURLtemplate g) = Inr t1 \<and>
      Parse name f (revisionTemplate g) = Inr t2 \<and> Parse name f bad = Inl e \<and>
      Parse name f good = Inr t \<longrightarrow>
      GetTemplater Parse Execute (g\<lparr>State := bad, Label := good\<rparr>) name f = Inl e \<and>
      GetTemplater Parse Execute (g\<lparr>State := good, Label := bad\<rparr>) name f = Inl e)"
proof -
  have S: "\<forall>t1 t2 bad e good t. Parse name f (repoURLtemplate g) = Inr t1 \<and>
      Parse name f (revisionTemplate g) = Inr t2 \<and> Parse name f bad = Inl e \<and>
      Parse name f good = Inr t \<longrightarrow>
      GetTemplater Parse Execute (g\<lparr>State := bad, Label := good\<rparr>) name f = Inl e \<and>
      GetTemplater Parse Execute (g\<lparr>State := good, Label := bad\<rparr>) name f = Inl e"
    by (intro allI impI conjI; elim conjE; rule GetTemplater_same_error; assumption)
  note F = GetTemplater_parse_cases [of Parse name f g Execute]
  show ?thesis
    apply (intro conjI)
          apply (rule F [THEN conjunct1])
         apply (rule F [THEN conjunct2, THEN conjunct1])
        apply (rule F [THEN conjunct2, THEN conjunct2, THEN conjunct1])
       apply (rule F [THEN conjunct2, THEN conjunct2, THEN conjunct2, THEN conjunct1])
      apply (rule F [THEN conjunct2, THEN conjunct2, THEN conjunct2, THEN conjunct2,
              THEN conjunct1])
     apply (rule F [THEN conjunct2, THEN conjunct2, THEN conjunct2, THEN conjunct2,
             THEN conjunct2])
    apply (rule S)
    done
qed

lemma bad_state_parse:
  "mini_Parse name f (repoURLtemplate cfg_bad_state)
     = Inr [FieldChain [''app'', ''spec'', ''source'', ''repoURL'']]"
  "mini_Parse name f (revisionTemplate cfg_bad_state)
     = Inr [FieldChain [''app'', ''status'', ''operationState'', ''syncResult'', ''revision'']]"
  "mini_Parse name f (State cfg_bad_state) = Inl (ParseError name ''unclosed action'')"
  by (simp_all add: cfg_bad_state_def repoURLtemplate_def revisionTemplate_def
        mini_Parse_defaultRepoURL mini_Parse_defaultRevision mini_Parse_unclosed)

lemma bad_label_parse:
  "mini_Parse name f (repoURLtemplate cfg_bad_label)
     = Inr [FieldChain [''app'', ''spec'', ''source'', ''repoURL'']]"
  "mini_Parse name f (revisionTemplate cfg_bad_label)
     = Inr [FieldChain [''app'', ''status'', ''operationState'', ''syncResult'', ''revision'']]"
  "mini_Parse name f (State cfg_bad_label) = Inr [Text ''success'']"
  "mini_Parse name f (Label cfg_bad_label) = Inl (ParseError name ''unclosed action'')"
  by (simp_all add: cfg_bad_label_def repoURLtemplate_def revisionTemplate_def
        mini_Parse_defaultRepoURL mini_Parse_defaultRevision mini_Parse_unclosed)
     (simp add: mini_Parse_def mk_text_def)

theorem GetTemplater_first_parse_error_witness:
  "mini_Parse ''n'' () (repoURLtemplate cfg_bad_label)
     = Inr [FieldChain [''app'', ''spec'', ''source'', ''repoURL'']] \<and>
   mini_Parse ''n'' () (revisionTemplate cfg_bad_label)
     = Inr [FieldChain [''app'', ''status'', ''operationState'', ''syncResult'', ''revision'']] \<and>
   mini_Parse ''n'' () (State cfg_bad_label) = Inr [Text ''success''] \<and>
   mini_Parse ''n'' () (Label cfg_bad_label) = Inl (ParseError ''n'' ''unclosed action'') \<and>
   (GetTemplater mini_Parse mini_Execute cfg_bad_label ''n'' ()
      :: tmpl_error + (Notification \<Rightarrow> val \<Rightarrow> node list list
           \<Rightarrow> (tmpl_error option \<times> Notification) \<times> node list list))
     = Inl (ParseError ''n'' ''unclosed action'')"
proof -
  note H = GetTemplater_first_parse_error [of mini_Parse "''n''" "()" cfg_bad_label mini_Execute]
  have "GetTemplater mini_Parse mini_Execute cfg_bad_label ''n'' ()
      = Inl (ParseError ''n'' ''unclosed action'')"
    by (rule H [THEN conjunct2, THEN conjunct2, THEN conjunct2, THEN conjunct1, rule_format])
       (intro conjI; rule bad_label_parse)
  then show ?thesis by (simp add: bad_label_parse)
qed

text \<open>
  The claim as written fails: a syntax error in the state template and the same syntax
  error in the label template give the same error value, so the error does not identify
  the field.
\<close>

theorem GetTemplater_error_without_field:
  "mini_Parse ''n'' () (State cfg_bad_state) = Inl (ParseError ''n'' ''unclosed action'') \<and>
   mini_Parse ''n'' () (State cfg_bad_label) = Inr [Text ''success''] \<and>
   mini_Parse ''n'' () (Label cfg_bad_label) = Inl (ParseError ''n'' ''unclosed action'') \<and>
   (GetTemplater mini_Parse mini_Execute cfg_bad_state ''n'' ()
      :: tmpl_error + (Notification \<Rightarrow> val \<Rightarrow> node list list
           \<Rightarrow> (tmpl_error option \<times> Notification) \<times> node list list))
     = Inl (ParseError ''n'' ''unclosed action'') \<and>
   (GetTemplater mini_Parse mini_Execute cfg_bad_label ''n'' ()
      :: tmpl_error + (Notification \<Rightarrow> val \<Rightarrow> node list list
           \<Rightarrow> (tmpl_error option \<times> Notification) \<times> node list list))
     = Inl (ParseError ''n'' ''unclosed action'')"
  by (simp add: bad_state_parse bad_label_parse GetTemplater_def Let_def
        repoURLtemplate_def [symmetric] revisionTemplate_def [symmetric])

lemma Execute_empty:
  assumes "\<And>w. fst (Execute t0 vars w) = Inr []"
  shows "\<exists>w'. Execute t0 vars w = (Inr [], w')"
  using assms [of w] by (cases "Execute t0 vars w") simp

lemma templater_State_empty:
  assumes E0: "\<And>w. fst (Execute t0 vars w) = Inr []"
    and "Execute t1 vars w = (Inr s1, w1)" "Execute t2 vars w1 = (Inr s2, w2)"
  shows "\<exists>r p' w'. templater Execute t1 t2 t0 t4 t5 n vars w = ((r, n\<lparr>GitHub := Some p'\<rparr>), w')
           \<and> State p' = []"
proof -
  obtain w3 where "Execute t0 vars w2 = (Inr [], w3)" using Execute_empty [where Execute = Execute and ?t0.0 = t0 and vars = vars, OF E0] by blast
  with assms(2,3) show ?thesis
    by (auto simp add: templater_def Let_def split: prod.splits sum.splits)
qed

lemma templater_Label_empty:
  assumes E0: "\<And>w. fst (Execute t0 vars w) = Inr []"
    and "Execute t1 vars w = (Inr s1, w1)" "Execute t2 vars w1 = (Inr s2, w2)"
      "Execute t3 vars w2 = (Inr s3, w3)"
  shows "\<exists>r p' w'. templater Execute t1 t2 t3 t0 t5 n vars w = ((r, n\<lparr>GitHub := Some p'\<rparr>), w')
           \<and> Label p' = []"
proof -
  obtain w4 where "Execute t0 vars w3 = (Inr [], w4)" using Execute_empty [where Execute = Execute and ?t0.0 = t0 and vars = vars, OF E0] by blast
  with assms(2-4) show ?thesis
    by (auto simp add: templater_def Let_def split: prod.splits sum.splits)
qed

lemma templater_TargetURL_empty:
  assumes E0: "\<And>w. fst (Execute t0 vars w) = Inr []"
    and "Execute t1 vars w = (Inr s1, w1)" "Execute t2 vars w1 = (Inr s2, w2)"
      "Execute t3 vars w2 = (Inr s3, w3)" "Execute t4 vars w3 = (Inr s4, w4)"
  shows "\<exists>p' w'. templater Execute t1 t2 t3 t4 t0 n vars w = ((None, n\<lparr>GitHub := Some p'\<rparr>), w')
           \<and> TargetURL p' = []"
proof -
  obtain w5 where "Execute t0 vars w4 = (Inr [], w5)" using Execute_empty [where Execute = Execute and ?t0.0 = t0 and vars = vars, OF E0] by blast
  with assms(2-5) show ?thesis
    by (auto simp add: templater_def Let_def split: prod.splits sum.splits)
qed

text \<open>
  C9.  For an engine that compiles the empty text, to a template that renders the empty
  string (as \<^verbatim>\<open>text/template\<close> does), an empty \<^verbatim>\<open>State\<close>, \<^verbatim>\<open>Label\<close> or \<^verbatim>\<open>TargetURL\<close> is
  accepted: \<^verbatim>\<open>GetTemplater\<close> compiles the empty text itself for that field, with no
  default in its place, and succeeds when the other four texts compile.  Once the
  executor reaches the field it writes the empty string into it.
\<close>

theorem empty_templates_accepted:
  assumes "Parse name f [] = Inr t0"
    and "\<And>w. fst (Execute t0 vars w) = Inr []"
  shows
    "(State g = [] \<and> Parse name f (repoURLtemplate g) = Inr t1 \<and>
      Parse name f (revisionTemplate g) = Inr t2 \<and> Parse name f (Label g) = Inr t4 \<and>
      Parse name f (TargetURL g) = Inr t5 \<longrightarrow>
        GetTemplater Parse Execute g name f = Inr (templater Execute t1 t2 t0 t4 t5)) \<and>
     (Label g = [] \<and> Parse name f (repoURLtemplate g) = Inr t1 \<and>
      Parse name f (revisionTemplate g) = Inr t2 \<and> Parse name f (State g) = Inr t3 \<and>
      Parse name f (TargetURL g) = Inr t5 \<longrightarrow>
        GetTemplater Parse Execute g name f = Inr (templater Execute t1 t2 t3 t0 t5)) \<and>
     (TargetURL g = [] \<and> Parse name f (repoURLtemplate g) = Inr t1 \<and>
      Parse name f (revisionTemplate g) = Inr t2 \<and> Parse name f (State g) = Inr t3 \<and>
      Parse name f (Label g) = Inr t4 \<longrightarrow>
        GetTemplater Parse Execute g name f = Inr (templater Execute t1 t2 t3 t4 t0)) \<and>
     (Execute t1 vars w = (Inr s1, w1) \<and> Execute t2 vars w1 = (Inr s2, w2) \<longrightarrow>
        (\<exists>r p' w'. templater Execute t1 t2 t0 t4 t5 n vars w = ((r, n\<lparr>GitHub := Some p'\<rparr>), w')
           \<and> State p' = [])) \<and>
     (Execute t1 vars w = (Inr s1, w1) \<and> Execute t2 vars w1 = (Inr s2, w2) \<and>
      Execute t3 vars w2 = (Inr s3, w3) \<longrightarrow>
        (\<exists>r p' w'. templater Execute t1 t2 t3 t0 t5 n vars w = ((r, n\<lparr>GitHub := Some p'\<rparr>), w')
           \<and> Label p' = [])) \<and>
     (Execute t1 vars w = (Inr s1, w1) \<and> Execute t2 vars w1 = (Inr s2, w2) \<and>
      Execute t3 vars w2 = (Inr s3, w3) \<and> Execute t4 vars w3 = (Inr s4, w4) \<longrightarrow>
        (\<exists>p' w'. templater Execute t1 t2 t3 t4 t0 n vars w = ((None, n\<lparr>GitHub := Some p'\<rparr>), w')
           \<and> TargetURL p' = []))"
proof (intro conjI impI)
  assume "State g = [] \<and> Parse name f (repoURLtemplate g) = Inr t1 \<and>
      Parse name f (revisionTemplate g) = Inr t2 \<and> Parse name f (Label g) = Inr t4 \<and>
      Parse name f (TargetURL g) = Inr t5"
  with assms(1) show "GetTemplater Parse Execute g name f = Inr (templater Execute t1 t2 t0 t4 t5)"
    by (intro GetTemplater_ok) simp_all
next
  assume "Label g = [] \<and> Parse name f (repoURLtemplate g) = Inr t1 \<and>
      Parse name f (revisionTemplate g) = Inr t2 \<and> Parse name f (State g) = Inr t3 \<and>
      Parse name f (TargetURL g) = Inr t5"
  with assms(1) show "GetTemplater Parse Execute g name f = Inr (templater Execute t1 t2 t3 t0 t5)"
    by (intro GetTemplater_ok) simp_all
next
  assume "TargetURL g = [] \<and> Parse name f (repoURLtemplate g) = Inr t1 \<and>
      Parse name f (revisionTemplate g) = Inr t2 \<and> Parse name f (State g) = Inr t3 \<and>
      Parse name f (Label g) = Inr t4"
  with assms(1) show "GetTemplater Parse Execute g name f = Inr (templater Execute t1 t2 t3 t4 t0)"
    by (intro GetTemplater_ok) simp_all
next
  assume "Execute t1 vars w = (Inr s1, w1) \<and> Execute t2 vars w1 = (Inr s2, w2)"
  then show "\<exists>r p' w'. templater Execute t1 t2 t0 t4 t5 n vars w
      = ((r, n\<lparr>GitHub := Some p'\<rparr>), w') \<and> State p' = []"
    using templater_State_empty [where Execute = Execute and ?t0.0 = t0 and vars = vars, OF assms(2)] by blast
next
  assume "Execute t1 vars w = (Inr s1, w1) \<and> Execute t2 vars w1 = (Inr s2, w2) \<and>
      Execute t3 vars w2 = (Inr s3, w3)"
  then show "\<exists>r p' w'. templater Execute t1 t2 t3 t0 t5 n vars w
      = ((r, n\<lparr>GitHub := Some p'\<rparr>), w') \<and> Label p' = []"
    using templater_Label_empty [where Execute = Execute and ?t0.0 = t0 and vars = vars, OF assms(2)] by blast
next
  assume "Execute t1 vars w = (Inr s1, w1) \<and> Execute t2 vars w1 = (Inr s2, w2) \<and>
      Execute t3 vars w2 = (Inr s3, w3) \<and> Execute t4 vars w3 = (Inr s4, w4)"
  then show "\<exists>p' w'. templater Execute t1 t2 t3 t4 t0 n vars w
      = ((None, n\<lparr>GitHub := Some p'\<rparr>), w') \<and> TargetURL p' = []"
    using templater_TargetURL_empty [where Execute = Execute and ?t0.0 = t0 and vars = vars, OF assms(2)] by blast
qed

theorem empty_templates_accepted_witness:
  "mini_Parse ''n'' () [] = Inr [] \<and>
   State cfg_empty = [] \<and> Label cfg_empty = [] \<and> TargetURL cfg_empty = [] \<and>
   GetTemplater mini_Parse mini_Execute cfg_empty ''n'' ()
     = Inr (templater mini_Execute [FieldChain [''app'', ''spec'', ''source'', ''repoURL'']]
         [FieldChain [''app'', ''status'', ''operationState'', ''syncResult'', ''revision'']]
         [] [] []) \<and>
   (\<exists>p' w'. templater mini_Execute [FieldChain [''app'', ''spec'', ''source'', ''repoURL'']]
         [FieldChain [''app'', ''status'', ''operationState'', ''syncResult'', ''revision'']]
         [] [] [] note_fresh example_vars []
       = ((None, note_fresh\<lparr>GitHub := Some p'\<rparr>), w') \<and>
      State p' = [] \<and> Label p' = [] \<and> TargetURL p' = [])"
proof -
  let ?tR = "[FieldChain [''app'', ''spec'', ''source'', ''repoURL'']]"
  let ?tV = "[FieldChain [''app'', ''status'', ''operationState'', ''syncResult'', ''revision'']]"
  let ?w1 = "[] @ [?tR]"
  let ?w2 = "?w1 @ [?tV]"
  let ?w3 = "?w2 @ [[]]"
  let ?w4 = "?w3 @ [[]]"
  have P0: "mini_Parse ''n'' () [] = Inr []" by (rule mini_Parse_empty)
  have E0: "\<And>w. fst (mini_Execute [] example_vars w) = Inr []"
    by (simp add: mini_Execute_empty)
  have e: "State cfg_empty = []" "Label cfg_empty = []" "TargetURL cfg_empty = []"
    by (simp_all add: cfg_empty_def)
  have x3: "mini_Execute [] example_vars ?w2 = (Inr [], ?w3)"
    and x4: "mini_Execute [] example_vars ?w3 = (Inr [], ?w4)"
    by (rule mini_Execute_empty)+
  note H = empty_templates_accepted [where Parse = mini_Parse and Execute = mini_Execute
      and name = "''n''" and f = "()" and ?t0.0 = "[]" and vars = example_vars
      and g = cfg_empty and ?t1.0 = ?tR and ?t2.0 = ?tV and ?t3.0 = "[]" and ?t4.0 = "[]"
      and ?t5.0 = "[]" and n = note_fresh and w = "[]" and ?s1.0 = "''https://x/y/z.git''"
      and ?w1.0 = ?w1 and ?s2.0 = "''<no value>''" and ?w2.0 = ?w2 and ?s3.0 = "[]"
      and ?w3.0 = ?w3 and ?s4.0 = "[]" and ?w4.0 = ?w4, OF P0 E0]
  have c: "GetTemplater mini_Parse mini_Execute cfg_empty ''n'' ()
      = Inr (templater mini_Execute ?tR ?tV [] [] [])"
    by (rule H [THEN conjunct1, rule_format])
       (intro conjI; rule e cfg_empty_parse)
  from H [THEN conjunct2, THEN conjunct2, THEN conjunct2, THEN conjunct1, rule_format,
      OF conjI [OF example_exec(1) example_exec(2)]]
  obtain r4 p4 v4 where r4: "templater mini_Execute ?tR ?tV [] [] [] note_fresh example_vars []
      = ((r4, note_fresh\<lparr>GitHub := Some p4\<rparr>), v4)" and s4: "State p4 = []"
    by blast
  from H [THEN conjunct2, THEN conjunct2, THEN conjunct2, THEN conjunct2, THEN conjunct1,
      rule_format, OF conjI [OF example_exec(1) conjI [OF example_exec(2) x3]]]
  obtain r5 p5 v5 where r5: "templater mini_Execute ?tR ?tV [] [] [] note_fresh example_vars []
      = ((r5, note_fresh\<lparr>GitHub := Some p5\<rparr>), v5)" and s5: "Label p5 = []"
    by blast
  from H [THEN conjunct2, THEN conjunct2, THEN conjunct2, THEN conjunct2, THEN conjunct2,
      rule_format, OF conjI [OF example_exec(1) conjI [OF example_exec(2) conjI [OF x3 x4]]]]
  obtain p6 v6 where r6: "templater mini_Execute ?tR ?tV [] [] [] note_fresh example_vars []
      = ((None, note_fresh\<lparr>GitHub := Some p6\<rparr>), v6)" and s6: "TargetURL p6 = []"
    by blast
  from r4 r6 have "p4 = p6" by (simp add: note_fresh_def)
  moreover from r5 r6 have "p5 = p6" by (simp add: note_fresh_def)
  ultimately have "State p6 = [] \<and> Label p6 = [] \<and> TargetURL p6 = []"
    using s4 s5 s6 by simp
  with r6 have "\<exists>p' w'. templater mini_Execute ?tR ?tV [] [] [] note_fresh example_vars []
       = ((None, note_fresh\<lparr>GitHub := Some p'\<rparr>), w') \<and>
      State p' = [] \<and> Label p' = [] \<and> TargetURL p' = []"
    by blast
  with P0 e c show ?thesis by blast
qed

lemma parse_https_repo:
  "giturls_Parse ''https://github.com/owner/repo.git''
     = Inr \<lparr>Scheme = ''https'', Host = ''github.com'', Path = ''/owner/repo.git''\<rparr>"
  by (simp add: giturls_Parse_def ParseTransport_def ToLower_def Transports_def Let_def)

lemma parse_https_owner:
  "giturls_Parse ''https://github.com/owner''
     = Inr \<lparr>Scheme = ''https'', Host = ''github.com'', Path = ''/owner''\<rparr>"
  by (simp add: giturls_Parse_def ParseTransport_def ToLower_def Transports_def Let_def)

lemma parse_scp_repo:
  "giturls_Parse ''git@github.com:owner/repo.git''
     = Inr \<lparr>Scheme = ''ssh'', Host = ''github.com'', Path = ''owner/repo.git''\<rparr>"
  by (simp add: giturls_Parse_def ParseTransport_def ToLower_def ParseScp_def Transports_def Let_def alnum_def)

lemma parse_scp_owner:
  "giturls_Parse ''git@github.com:owner.git''
     = Inr \<lparr>Scheme = ''ssh'', Host = ''github.com'', Path = ''owner.git''\<rparr>"
  by (simp add: giturls_Parse_def ParseTransport_def ToLower_def ParseScp_def Transports_def Let_def alnum_def)

lemma parse_empty:
  "giturls_Parse [] = Inr \<lparr>Scheme = ''file'', Host = [], Path = []\<rparr>"
  by (simp add: giturls_Parse_def ParseTransport_def ToLower_def ParseScp_def ParseLocal_def Let_def)

section \<open>Splitting and joining\<close>

lemma Split_no_sep: "sep \<notin> set a \<Longrightarrow> Split a sep = [a]"
  by (induction a) auto

lemma Split_append_sep: "sep \<notin> set a \<Longrightarrow> Split (a @ sep # r) sep = a # Split r sep"
  by (induction a) auto

lemma SplitRemoveEmpty_two:
  assumes "owner \<noteq> []" "repo \<noteq> []" "CHR ''/'' \<notin> set owner" "CHR ''/'' \<notin> set repo"
  shows "SplitRemoveEmpty (owner @ ''/'' @ repo) CHR ''/'' = [owner, repo]"
    and "SplitRemoveEmpty (''/'' @ owner @ ''/'' @ repo) CHR ''/'' = [owner, repo]"
  using assms by (simp_all add: SplitRemoveEmpty_def Split_append_sep Split_no_sep)

lemma gitSuffix_stripped: "gitSuffix_ReplaceAllString (s @ ''.git'') [] = s"
  by (simp add: gitSuffix_ReplaceAllString_def)

lemma fullNameByRepoURL_Inr:
  "Parse rawURL = Inr u \<Longrightarrow>
   fullNameByRepoURL Parse rawURL =
     (let path = gitSuffix_ReplaceAllString (Path u) [];
          pathParts = SplitRemoveEmpty path CHR ''/''
      in if 2 \<le> length pathParts then Inr (Join (take 2 pathParts) ''/'') else Inr path)"
  by (simp add: fullNameByRepoURL_def)

lemma fullNameByRepoURL_two:
  assumes "Parse rawURL = Inr u"
    and "SplitRemoveEmpty (gitSuffix_ReplaceAllString (Path u) []) CHR ''/'' = a # b # rest"
  shows "fullNameByRepoURL Parse rawURL = Inr (a @ ''/'' @ b)"
  using assms by (simp add: fullNameByRepoURL_Inr)

lemma fullNameByRepoURL_short:
  assumes "Parse rawURL = Inr u"
    and "length (SplitRemoveEmpty (gitSuffix_ReplaceAllString (Path u) []) CHR ''/'') < 2"
  shows "fullNameByRepoURL Parse rawURL = Inr (gitSuffix_ReplaceAllString (Path u) [])"
  using assms by (simp add: fullNameByRepoURL_Inr Let_def)

text \<open>
  C8.  When the parser gives the path \<^verbatim>\<open>/owner/repo.git\<close> (as for
  \<^verbatim>\<open>https://github.com/owner/repo.git\<close>) or \<^verbatim>\<open>owner/repo.git\<close> (as for
  \<^verbatim>\<open>git@github.com:owner/repo.git\<close>), the resolver returns \<^verbatim>\<open>owner/repo\<close>; so it does for
  every owner and repository name in place of these two.  In general it strips a
  trailing \<^verbatim>\<open>.git\<close>, splits the path on \<^verbatim>\<open>/\<close> without the empty segments, and joins the
  first two segments when there are two.  With fewer segments, as for the path
  \<^verbatim>\<open>/owner\<close> of \<^verbatim>\<open>https://github.com/owner\<close>, it returns the stripped path and does not
  panic.
\<close>

theorem fullNameByRepoURL_resolves:
  "(Parse rawURL = Inr u \<and> Path u = ''/owner/repo.git'' \<longrightarrow>
      fullNameByRepoURL Parse rawURL = Inr ''owner/repo'') \<and>
   (Parse rawURL = Inr u \<and> Path u = ''owner/repo.git'' \<longrightarrow>
      fullNameByRepoURL Parse rawURL = Inr ''owner/repo'') \<and>
   (Parse rawURL = Inr u \<and> Path u = ''/owner'' \<longrightarrow>
      fullNameByRepoURL Parse rawURL = Inr ''/owner'') \<and>
   (Parse rawURL = Inr u \<and> owner \<noteq> [] \<and> repo \<noteq> [] \<and>
    CHR ''/'' \<notin> set owner \<and> CHR ''/'' \<notin> set repo \<and>
    (Path u = ''/'' @ owner @ ''/'' @ repo @ ''.git'' \<or> Path u = owner @ ''/'' @ repo @ ''.git'')
      \<longrightarrow> fullNameByRepoURL Parse rawURL = Inr (owner @ ''/'' @ repo)) \<and>
   (Parse rawURL = Inr u \<and>
    SplitRemoveEmpty (gitSuffix_ReplaceAllString (Path u) []) CHR ''/'' = a # b # rest
      \<longrightarrow> fullNameByRepoURL Parse rawURL = Inr (a @ ''/'' @ b)) \<and>
   (Parse rawURL = Inr u \<and>
    length (SplitRemoveEmpty (gitSuffix_ReplaceAllString (Path u) []) CHR ''/'') < 2
      \<longrightarrow> fullNameByRepoURL Parse rawURL = Inr (gitSuffix_ReplaceAllString (Path u) []))"
proof (intro conjI impI)
  assume "Parse rawURL = Inr u \<and> Path u = ''/owner/repo.git''"
  then show "fullNameByRepoURL Parse rawURL = Inr ''owner/repo''"
    by (simp add: fullNameByRepoURL_Inr gitSuffix_ReplaceAllString_def SplitRemoveEmpty_def)
next
  assume "Parse rawURL = Inr u \<and> Path u = ''owner/repo.git''"
  then show "fullNameByRepoURL Parse rawURL = Inr ''owner/repo''"
    by (simp add: fullNameByRepoURL_Inr gitSuffix_ReplaceAllString_def SplitRemoveEmpty_def)
next
  assume "Parse rawURL = Inr u \<and> Path u = ''/owner''"
  then show "fullNameByRepoURL Parse rawURL = Inr ''/owner''"
    by (simp add: fullNameByRepoURL_Inr gitSuffix_ReplaceAllString_def SplitRemoveEmpty_def)
next
  assume a: "Parse rawURL = Inr u \<and> owner \<noteq> [] \<and> repo \<noteq> [] \<and>
    CHR ''/'' \<notin> set owner \<and> CHR ''/'' \<notin> set repo \<and>
    (Path u = ''/'' @ owner @ ''/'' @ repo @ ''.git'' \<or> Path u = owner @ ''/'' @ repo @ ''.git'')"
  then have o: "owner \<noteq> []" "repo \<noteq> []" "CHR ''/'' \<notin> set owner" "CHR ''/'' \<notin> set repo"
    by simp_all
  note s = SplitRemoveEmpty_two [OF o]
  from a have "Path u = (''/'' @ owner @ ''/'' @ repo) @ ''.git''
      \<or> Path u = (owner @ ''/'' @ repo) @ ''.git''" by simp
  then show "fullNameByRepoURL Parse rawURL = Inr (owner @ ''/'' @ repo)"
  proof
    assume "Path u = (''/'' @ owner @ ''/'' @ repo) @ ''.git''"
    then have "gitSuffix_ReplaceAllString (Path u) [] = ''/'' @ owner @ ''/'' @ repo"
      by (simp only: gitSuffix_stripped)
    with a s(2) show ?thesis by (simp add: fullNameByRepoURL_two)
  next
    assume "Path u = (owner @ ''/'' @ repo) @ ''.git''"
    then have "gitSuffix_ReplaceAllString (Path u) [] = owner @ ''/'' @ repo"
      by (simp only: gitSuffix_stripped)
    with a s(1) show ?thesis by (simp add: fullNameByRepoURL_two)
  qed
next
  assume "Parse rawURL = Inr u \<and>
    SplitRemoveEmpty (gitSuffix_ReplaceAllString (Path u) []) CHR ''/'' = a # b # rest"
  then show "fullNameByRepoURL Parse rawURL = Inr (a @ ''/'' @ b)"
    by (simp add: fullNameByRepoURL_two)
next
  assume "Parse rawURL = Inr u \<and>
    length (SplitRemoveEmpty (gitSuffix_ReplaceAllString (Path u) []) CHR ''/'') < 2"
  then show "fullNameByRepoURL Parse rawURL = Inr (gitSuffix_ReplaceAllString (Path u) [])"
    by (simp add: fullNameByRepoURL_short)
qed

theorem fullNameByRepoURL_resolves_witness:
  "giturls_Parse ''https://github.com/owner/repo.git''
     = Inr \<lparr>Scheme = ''https'', Host = ''github.com'', Path = ''/owner/repo.git''\<rparr> \<and>
   fullNameByRepoURL giturls_Parse ''https://github.com/owner/repo.git'' = Inr ''owner/repo'' \<and>
   giturls_Parse ''git@github.com:owner/repo.git''
     = Inr \<lparr>Scheme = ''ssh'', Host = ''github.com'', Path = ''owner/repo.git''\<rparr> \<and>
   fullNameByRepoURL giturls_Parse ''git@github.com:owner/repo.git'' = Inr ''owner/repo'' \<and>
   giturls_Parse ''https://github.com/owner''
     = Inr \<lparr>Scheme = ''https'', Host = ''github.com'', Path = ''/owner''\<rparr> \<and>
   fullNameByRepoURL giturls_Parse ''https://github.com/owner'' = Inr ''/owner''"
proof -
  note H = fullNameByRepoURL_resolves [where Parse = giturls_Parse]
  have 1: "fullNameByRepoURL giturls_Parse ''https://github.com/owner/repo.git''
      = Inr ''owner/repo''"
    by (rule H [where u = "\<lparr>Scheme = ''https'', Host = ''github.com'',
          Path = ''/owner/repo.git''\<rparr>", THEN conjunct1, rule_format])
       (simp add: parse_https_repo)
  have 2: "fullNameByRepoURL giturls_Parse ''git@github.com:owner/repo.git'' = Inr ''owner/repo''"
    by (rule H [where u = "\<lparr>Scheme = ''ssh'', Host = ''github.com'',
          Path = ''owner/repo.git''\<rparr>", THEN conjunct2, THEN conjunct1, rule_format])
       (simp add: parse_scp_repo)
  have 3: "fullNameByRepoURL giturls_Parse ''https://github.com/owner'' = Inr ''/owner''"
    by (rule H [where u = "\<lparr>Scheme = ''https'', Host = ''github.com'',
          Path = ''/owner''\<rparr>", THEN conjunct2, THEN conjunct2, THEN conjunct1, rule_format])
       (simp add: parse_https_owner)
  from 1 2 3 show ?thesis
    by (simp only: parse_https_repo parse_scp_repo parse_https_owner simp_thms)
qed

lemma fullNameByRepoURL_error_branch:
  "Parse rawURL = Inl e \<Longrightarrow> fullNameByRepoURL Parse rawURL = Inl (PanicWith e)"
  by (simp add: fullNameByRepoURL_def)

lemma Parse_first_local:
  "PT rawURL = Inl e1 \<Longrightarrow> PS rawURL = Inl e2 \<Longrightarrow>
   Parse_first [PT, PS, ParseLocal] rawURL = Inr \<lparr>Scheme = ''file'', Host = [], Path = rawURL\<rparr>"
  by (simp add: ParseLocal_def)

lemma Parse_first_total: "\<exists>u. Parse_first [PT, PS, ParseLocal] rawURL = Inr u"
  by (cases "PT rawURL"; cases "PS rawURL") (simp_all add: ParseLocal_def)

lemma giturls_Parse_first: "giturls_Parse = Parse_first [ParseTransport, ParseScp, ParseLocal]"
  by (rule ext) (simp only: giturls_Parse_def)

lemma not_remote_owner_repo:
  "ParseTransport ''owner/repo'' = Inl ''scheme is not a valid transport''"
  "ParseScp ''owner/repo'' = Inl ''no scp URL found''"
  by (simp_all add: ParseTransport_def ParseScp_def ToLower_def Let_def)

lemma not_remote_host_owner_repo:
  "ParseTransport ''github.com/owner/repo'' = Inl ''scheme is not a valid transport''"
  "ParseScp ''github.com/owner/repo'' = Inl ''no scp URL found''"
  by (simp_all add: ParseTransport_def ParseScp_def ToLower_def Let_def)

text \<open>
  C2 (amended).  \<^verbatim>\<open>fullNameByRepoURL\<close> has no error result, and with \<^verbatim>\<open>giturls.Parse\<close> it
  raises no fault either: that parser ends with the local path, which accepts every
  string, so the resolver returns a string for every input.  For an input that is not a
  Git remote URL, one that neither the transport parser nor the \<^verbatim>\<open>scp\<close> parser
  accepts (whatever these two parsers are), the parsed path is the input itself and the
  result is the name computed from it.
\<close>

theorem fullNameByRepoURL_never_errors:
  "(\<exists>r. fullNameByRepoURL (Parse_first [PT, PS, ParseLocal]) rawURL = Inr r) \<and>
   (\<forall>e1 e2. PT rawURL = Inl e1 \<and> PS rawURL = Inl e2 \<longrightarrow>
      Parse_first [PT, PS, ParseLocal] rawURL
        = Inr \<lparr>Scheme = ''file'', Host = [], Path = rawURL\<rparr> \<and>
      fullNameByRepoURL (Parse_first [PT, PS, ParseLocal]) rawURL =
        (let path = gitSuffix_ReplaceAllString rawURL [];
             pathParts = SplitRemoveEmpty path CHR ''/''
         in if 2 \<le> length pathParts then Inr (Join (take 2 pathParts) ''/'')
            else Inr path))"
proof (intro conjI allI impI)
  obtain u where u: "Parse_first [PT, PS, ParseLocal] rawURL = Inr u"
    using Parse_first_total by blast
  show "\<exists>r. fullNameByRepoURL (Parse_first [PT, PS, ParseLocal]) rawURL = Inr r"
    by (simp add: fullNameByRepoURL_Inr [where Parse = "Parse_first [PT, PS, ParseLocal]", OF u]
          Let_def)
next
  fix e1 e2
  assume "PT rawURL = Inl e1 \<and> PS rawURL = Inl e2"
  then show "Parse_first [PT, PS, ParseLocal] rawURL
      = Inr \<lparr>Scheme = ''file'', Host = [], Path = rawURL\<rparr>"
    by (elim conjE) (rule Parse_first_local)
next
  fix e1 e2
  assume "PT rawURL = Inl e1 \<and> PS rawURL = Inl e2"
  then have u: "Parse_first [PT, PS, ParseLocal] rawURL
      = Inr \<lparr>Scheme = ''file'', Host = [], Path = rawURL\<rparr>"
    by (elim conjE) (rule Parse_first_local)
  show "fullNameByRepoURL (Parse_first [PT, PS, ParseLocal]) rawURL =
        (let path = gitSuffix_ReplaceAllString rawURL [];
             pathParts = SplitRemoveEmpty path CHR ''/''
         in if 2 \<le> length pathParts then Inr (Join (take 2 pathParts) ''/'')
            else Inr path)"
    by (simp add: fullNameByRepoURL_Inr [where Parse = "Parse_first [PT, PS, ParseLocal]", OF u])
qed

theorem fullNameByRepoURL_never_errors_witness:
  "ParseTransport ''github.com/owner/repo'' = Inl ''scheme is not a valid transport'' \<and>
   ParseScp ''github.com/owner/repo'' = Inl ''no scp URL found'' \<and>
   giturls_Parse ''github.com/owner/repo''
     = Inr \<lparr>Scheme = ''file'', Host = [], Path = ''github.com/owner/repo''\<rparr> \<and>
   fullNameByRepoURL giturls_Parse ''github.com/owner/repo'' = Inr ''github.com/owner''"
proof -
  note H = fullNameByRepoURL_never_errors [of ParseTransport ParseScp "''github.com/owner/repo''",
      THEN conjunct2, rule_format, OF conjI [OF not_remote_host_owner_repo]]
  have "fullNameByRepoURL giturls_Parse ''github.com/owner/repo'' = Inr ''github.com/owner''"
    unfolding giturls_Parse_first
    by (simp add: H [THEN conjunct2] gitSuffix_ReplaceAllString_def SplitRemoveEmpty_def)
  moreover have "giturls_Parse ''github.com/owner/repo''
     = Inr \<lparr>Scheme = ''file'', Host = [], Path = ''github.com/owner/repo''\<rparr>"
    unfolding giturls_Parse_first by (rule H [THEN conjunct1])
  ultimately show ?thesis by (simp add: not_remote_host_owner_repo)
qed

text \<open>
  The claim as written fails: \<^verbatim>\<open>owner/repo\<close> is neither a URL with a Git transport nor an
  \<^verbatim>\<open>scp\<close> address, and the resolver does not yield an error for it: it returns the
  string \<^verbatim>\<open>owner/repo\<close>.
\<close>

theorem fullNameByRepoURL_no_error_value:
  "ParseTransport ''owner/repo'' = Inl ''scheme is not a valid transport'' \<and>
   ParseScp ''owner/repo'' = Inl ''no scp URL found'' \<and>
   fullNameByRepoURL giturls_Parse ''owner/repo'' = Inr ''owner/repo''"
  by (simp add: not_remote_owner_repo fullNameByRepoURL_def giturls_Parse_def ParseLocal_def
        gitSuffix_ReplaceAllString_def SplitRemoveEmpty_def)

section \<open>Sending\<close>

lemma Split_length: "length (Split s sep) = Suc (length (filter (\<lambda>c. c = sep) s))"
  by (induction s) (auto split: list.splits)

lemma trunc_140_total: "\<exists>d. trunc message 140 = Inr d"
  by (simp add: trunc_def)

lemma Send_no_payload:
  "GitHub notification = None \<Longrightarrow>
   Send Parse CreateStatus notification c = (Inr (Some (Errorf ''config is empty'')), c)"
  by (simp add: Send_def)

lemma Send_without_slash:
  assumes "GitHub notification = Some gh"
    and "fullNameByRepoURL Parse (RepoURL gh) = Inr fullName"
    and "CHR ''/'' \<notin> set fullName"
  shows "Send Parse CreateStatus notification c = (Inl IndexOutOfRange, c)"
proof -
  have "filter (\<lambda>c. c = CHR ''/'') fullName = []" using assms(3) by (auto simp add: filter_empty_conv)
  then have "length (Split fullName CHR ''/'') = 1" by (simp add: Split_length)
  moreover obtain d where "trunc (Message notification) 140 = (Inr d :: 'b panic + string)"
    using trunc_140_total by blast
  ultimately show ?thesis using assms(1,2) by (simp add: Send_def Let_def)
qed

lemma Send_with_slash:
  fixes Parse :: "string \<Rightarrow> 'e + 'u URL_scheme"
  assumes "GitHub notification = Some gh"
    and "fullNameByRepoURL Parse (RepoURL gh) = Inr (owner @ ''/'' @ repo)"
    and "CHR ''/'' \<notin> set owner" "CHR ''/'' \<notin> set repo"
    and "trunc (Message notification) 140 = (Inr description :: 'e panic + string)"
    and "CreateStatus \<lparr>call_owner = owner, call_repo = repo, call_ref = Revision gh,
           status_State = State gh, status_Description = description,
           status_Context = Label gh, status_TargetURL = TargetURL gh\<rparr> c = (r, c')"
  shows "Send Parse CreateStatus notification c = (Inr (map_option ClientError r), c')"
proof -
  have "Split (owner @ ''/'' @ repo) CHR ''/'' = [owner, repo]"
    using assms(3,4) by (simp add: Split_append_sep Split_no_sep)
  then show ?thesis
    using assms(1,2,5,6) by (cases r) (simp_all add: Send_def Let_def)
qed

lemma deployed_description: "trunc ''deployed'' 140 = Inr ''deployed''"
  by (rule trunc_short) (simp add: RuneCountInString_length string_to_runes.simps)

lemma fullName_scp_owner: "fullNameByRepoURL giturls_Parse ''git@github.com:owner.git'' = Inr ''owner''"
  by (simp add: fullNameByRepoURL_Inr [where Parse = giturls_Parse, OF parse_scp_owner] gitSuffix_ReplaceAllString_def
        SplitRemoveEmpty_def)

lemma fullName_empty: "fullNameByRepoURL giturls_Parse [] = Inr []"
  by (simp add: fullNameByRepoURL_Inr [where Parse = giturls_Parse, OF parse_empty] gitSuffix_ReplaceAllString_def
        SplitRemoveEmpty_def)

lemma fullName_https_owner:
  "fullNameByRepoURL giturls_Parse ''https://github.com/owner'' = Inr ''/owner''"
  by (simp add: fullNameByRepoURL_Inr [where Parse = giturls_Parse, OF parse_https_owner] gitSuffix_ReplaceAllString_def
        SplitRemoveEmpty_def)

lemma trunc_200: "trunc (replicate 200 CHR ''a'') 140 = Inr (replicate 137 CHR ''a'' @ ''...'')"
proof -
  have "140 < RuneCountInString (replicate 200 CHR ''a'')"
    by (simp add: RuneCountInString_length string_to_runes_ascii)
  moreover have "take 137 (replicate 200 (97::nat)) = replicate 137 97" by simp
  then have "runes_to_string (take 137 (string_to_runes (replicate 200 CHR ''a'')))
      = replicate 137 CHR ''a''"
    by (simp only: string_to_runes_ascii runes_to_string_ascii)
  ultimately show ?thesis using trunc_long(1) [of "replicate 200 CHR ''a''"] by simp
qed

lemma parse_https_o_r:
  "giturls_Parse ''https://github.com/o/r.git''
     = Inr \<lparr>Scheme = ''https'', Host = ''github.com'', Path = ''/o/r.git''\<rparr>"
  by (simp add: giturls_Parse_def ParseTransport_def ToLower_def Transports_def Let_def)

text \<open>
  The dispatch of a message of 200 code points for \<^verbatim>\<open>https://github.com/o/r.git\<close>: one
  call, for owner \<^verbatim>\<open>o\<close> and repository \<^verbatim>\<open>r\<close>, with the first 137 code points and
  \<^verbatim>\<open>...\<close> as description.
\<close>

lemma Send_end_to_end:
  "Send giturls_Parse recording_CreateStatus
     \<lparr>Message = replicate 200 CHR ''a'',
      GitHub = Some \<lparr>State = ''success'', Label = ''ci'', TargetURL = ''http://x'',
                     RepoURL = ''https://github.com/o/r.git'', Revision = ''abc123''\<rparr>\<rparr> []
     = (Inr None,
        [\<lparr>call_owner = ''o'', call_repo = ''r'', call_ref = ''abc123'',
          status_State = ''success'', status_Description = replicate 137 CHR ''a'' @ ''...'',
          status_Context = ''ci'', status_TargetURL = ''http://x''\<rparr>])"
proof -
  have "fullNameByRepoURL giturls_Parse ''https://github.com/o/r.git'' = Inr (''o'' @ ''/'' @ ''r'')"
    by (simp add: fullNameByRepoURL_Inr [where Parse = giturls_Parse, OF parse_https_o_r]
          gitSuffix_ReplaceAllString_def SplitRemoveEmpty_def)
  then show ?thesis
    using Send_with_slash [where Parse = giturls_Parse
        and CreateStatus = recording_CreateStatus and owner = "''o''" and repo = "''r''"
        and c = "[]" and r = None and description = "replicate 137 CHR ''a'' @ ''...''"
        and notification = "\<lparr>Message = replicate 200 CHR ''a'',
      GitHub = Some \<lparr>State = ''success'', Label = ''ci'', TargetURL = ''http://x'',
                     RepoURL = ''https://github.com/o/r.git'', Revision = ''abc123''\<rparr>\<rparr>"]
    by (simp add: trunc_200 recording_CreateStatus_def)
qed

text \<open>
  C1.  The code at inputs with fewer than two path segments.  For the address
  \<^verbatim>\<open>git@github.com:owner.git\<close>, and for the empty address, the resolved name has no
  \<^verbatim>\<open>/\<close>: \<^verbatim>\<open>Send\<close> panics at \<^verbatim>\<open>u[1]\<close>, index out of range, instead of returning an error,
  and makes no call.  For \<^verbatim>\<open>https://github.com/owner\<close> the resolved name is \<^verbatim>\<open>/owner\<close>:
  \<^verbatim>\<open>Send\<close> makes the call, with the empty string as owner and \<^verbatim>\<open>owner\<close> as repository.
\<close>

theorem Send_fewer_than_two_segments:
  "Send giturls_Parse recording_CreateStatus (note_for ''git@github.com:owner.git'') []
     = (Inl IndexOutOfRange, []) \<and>
   Send giturls_Parse recording_CreateStatus (note_for []) [] = (Inl IndexOutOfRange, []) \<and>
   Send giturls_Parse recording_CreateStatus (note_for ''https://github.com/owner'') []
     = (Inr None,
        [\<lparr>call_owner = [], call_repo = ''owner'', call_ref = ''abc123'',
          status_State = ''success'', status_Description = ''deployed'',
          status_Context = ''ci'', status_TargetURL = ''http://x''\<rparr>])"
  by (simp add: Send_def note_for_def fullName_scp_owner fullName_empty fullName_https_owner
        deployed_description recording_CreateStatus_def)

end
